theory Spec2Isabelle
  imports Complex_Main "HOL-Library.Word" "HOL-Library.AList"
begin

section \<open>Python values used by generate.py\<close>

text \<open>
  A \<^verbatim>\<open>bytes\<close> object is a list of 8-bit words; a \<^verbatim>\<open>str\<close> is a \<^typ>\<open>string\<close>.
  Python integers are unbounded, so they are \<^typ>\<open>int\<close>.
\<close>

type_synonym byte = "8 word"
type_synonym bytes = "byte list"

text \<open>
  The exceptions the script can meet. \<^verbatim>\<open>sys.exit(1)\<close> raises \<^verbatim>\<open>SystemExit\<close>, which is a
  \<^verbatim>\<open>BaseException\<close> but not an \<^verbatim>\<open>Exception\<close>: an \<^verbatim>\<open>except Exception\<close> clause lets it
  through. Every other constructor is a subclass of \<^verbatim>\<open>Exception\<close>; the payload is what
  \<^verbatim>\<open>str(e)\<close> is built from.
\<close>

datatype exn =
    KeyError int
  | OverflowError string
  | ValueError string
  | UnicodeDecodeError string
  | OSError string
  | UnsupportedAlgorithm string
  | SystemExit int

fun is_Exception :: "exn \<Rightarrow> bool" where
  "is_Exception (SystemExit _) = False"
| "is_Exception _ = True"

text \<open>
  A \<^verbatim>\<open>dict\<close> keeps its keys in insertion order; storing under a key that is present
  replaces the value in place, storing under a new key appends. That is
  \<^const>\<open>AList.update\<close> on an association list.
\<close>

type_synonym ('k, 'v) dict = "('k \<times> 'v) list"

definition dict_getitem :: "(int, 'v) dict \<Rightarrow> int \<Rightarrow> exn + 'v" where
  "dict_getitem d k = (case map_of d k of None \<Rightarrow> Inl (KeyError k) | Some v \<Rightarrow> Inr v)"

text \<open>\<^verbatim>\<open>{**d, **e}\<close>: the items of \<open>e\<close> are stored into \<open>d\<close> one after the other.\<close>

fun dict_update :: "('k, 'v) dict \<Rightarrow> ('k, 'v) dict \<Rightarrow> ('k, 'v) dict" where
  "dict_update d [] = d"
| "dict_update d ((k, v) # e) = dict_update (AList.update k v d) e"

text \<open>The JSON-like values the document is made of.\<close>

datatype json =
    JString string
  | JList "json list"
  | JDict "(string, json) dict"

text \<open>\<^verbatim>\<open>str(n)\<close> for an integer: its decimal digits.\<close>

function show_nat :: "nat \<Rightarrow> string" where
  "show_nat n =
     (if n < 10 then [''0123456789'' ! n]
      else show_nat (n div 10) @ [''0123456789'' ! (n mod 10)])"
  by pat_completeness auto
termination
  by (relation "measure id") auto

definition show_int :: "int \<Rightarrow> string" where
  "show_int i = (if i < 0 then ''-'' @ show_nat (nat (- i)) else show_nat (nat i))"

section \<open>Configuration constants\<close>

definition EC_CURVE_NAMES :: "(int, string) dict" where
  "EC_CURVE_NAMES = [(256, ''P-256''), (384, ''P-384''), (521, ''P-521'')]"

definition SIGNING_ALGORITHMS :: "(int, string) dict" where
  "SIGNING_ALGORITHMS = [(256, ''ES256''), (384, ''ES384''), (521, ''ES512'')]"

section \<open>Library functions: \<^verbatim>\<open>int.to_bytes\<close>, \<^verbatim>\<open>base64\<close>, \<^verbatim>\<open>hexdigest\<close>\<close>

text \<open>The \<open>n\<close> low-order bytes of \<open>v\<close>, most significant first.\<close>

fun big_endian :: "nat \<Rightarrow> int \<Rightarrow> bytes" where
  "big_endian 0 v = []"
| "big_endian (Suc n) v = big_endian n (v div 256) @ [word_of_int v]"

text \<open>The inverse direction, \<^verbatim>\<open>int.from_bytes(bs, "big")\<close>.\<close>

definition from_bytes :: "bytes \<Rightarrow> int" where
  "from_bytes bs = foldl (\<lambda>acc b. acc * 256 + uint b) 0 bs"

text \<open>
  \<^verbatim>\<open>v.to_bytes(length, "big")\<close> (unsigned): a negative length is a \<^verbatim>\<open>ValueError\<close>, a
  negative \<open>v\<close> or one that does not fit in \<open>length\<close> bytes is an \<^verbatim>\<open>OverflowError\<close>.
\<close>

definition to_bytes :: "int \<Rightarrow> int \<Rightarrow> exn + bytes" where
  "to_bytes v len =
     (if len < 0 then Inl (ValueError ''length argument must be non-negative'')
      else if v < 0 then Inl (OverflowError ''can't convert negative int to unsigned'')
      else if 256 ^ nat len \<le> v then Inl (OverflowError ''int too big to convert'')
      else Inr (big_endian (nat len) v))"

definition b64_alphabet :: string where
  "b64_alphabet = ''ABCDEFGHIJKLMNOPQRSTUVWXYZabcdefghijklmnopqrstuvwxyz0123456789+/''"

definition sextet :: "nat \<Rightarrow> char" where
  "sextet i = b64_alphabet ! i"

text \<open>
  \<^verbatim>\<open>base64.b64encode\<close>: three bytes become four characters; a last group of one or two
  bytes is filled up with \<^verbatim>\<open>=\<close>.
\<close>

fun b64encode :: "bytes \<Rightarrow> string" where
  "b64encode [] = []"
| "b64encode [a] =
     [sextet (unat a div 4), sextet (unat a mod 4 * 16), CHR ''='', CHR ''='']"
| "b64encode [a, b] =
     [sextet (unat a div 4), sextet (unat a mod 4 * 16 + unat b div 16),
      sextet (unat b mod 16 * 4), CHR ''='']"
| "b64encode (a # b # c # bs) =
     [sextet (unat a div 4), sextet (unat a mod 4 * 16 + unat b div 16),
      sextet (unat b mod 16 * 4 + unat c div 64), sextet (unat c mod 64)] @ b64encode bs"

text \<open>
  \<^verbatim>\<open>base64.urlsafe_b64encode\<close> is \<^verbatim>\<open>b64encode\<close> followed by a translation of \<^verbatim>\<open>+\<close> to
  \<^verbatim>\<open>-\<close> and of \<^verbatim>\<open>/\<close> to \<^verbatim>\<open>_\<close>. The padding is kept.
\<close>

definition urlsafe_translation :: "char \<Rightarrow> char" where
  "urlsafe_translation c =
     (if c = CHR ''+'' then CHR ''-'' else if c = CHR ''/'' then CHR ''_'' else c)"

definition urlsafe_b64encode :: "bytes \<Rightarrow> string" where
  "urlsafe_b64encode bs = map urlsafe_translation (b64encode bs)"

definition hex_digit :: "nat \<Rightarrow> char" where
  "hex_digit i = ''0123456789abcdef'' ! i"

text \<open>
  \<^verbatim>\<open>.decode("ascii")\<close> fails on the first byte above 127; the message names that byte
  and its position.
\<close>

definition decode_ascii :: "string \<Rightarrow> exn + string" where
  "decode_ascii s =
     (if list_all (\<lambda>c. of_char c < (128::nat)) s then Inr s
      else
        (let i = length (takeWhile (\<lambda>c. of_char c < (128::nat)) s);
             b = (of_char (s ! i) :: nat)
         in Inl (UnicodeDecodeError
              ([CHR 0x27] @ ''ascii'' @ [CHR 0x27] @ '' codec can't decode byte 0x''
               @ [hex_digit (b div 16), hex_digit (b mod 16)] @ '' in position ''
               @ show_nat i @ '': ordinal not in range(128)''))))"

definition hexdigest :: "bytes \<Rightarrow> string" where
  "hexdigest bs = concat (map (\<lambda>b. [hex_digit (unat b div 16), hex_digit (unat b mod 16)]) bs)"

section \<open>Keys of the \<^verbatim>\<open>cryptography\<close> library\<close>

text \<open>
  The library is not part of the repository. A key object is modelled by what the script
  reads from it: the curve with its \<^verbatim>\<open>key_size\<close>, the affine coordinates of
  \<^verbatim>\<open>public_numbers()\<close>, and the bytes that
  \<^verbatim>\<open>public_bytes(Encoding.DER, PublicFormat.SubjectPublicKeyInfo)\<close> returns.
\<close>

record elliptic_curve =
  curve_name :: string
  key_size :: int

record ec_public_key =
  curve :: elliptic_curve
  numbers_x :: int
  numbers_y :: int
  public_bytes_der :: bytes

text \<open>
  What the library guarantees of every public key it hands out (it checks that the point
  lies on the curve): the coordinates are elements of the curve's field, whose order has
  \<^verbatim>\<open>key_size\<close> bits, so they are nonnegative and below \<open>2 ^ key_size\<close>.
\<close>

definition field_element :: "elliptic_curve \<Rightarrow> int \<Rightarrow> bool" where
  "field_element c v = (0 \<le> v \<and> v < 2 ^ nat (key_size c))"

definition valid_public_key :: "ec_public_key \<Rightarrow> bool" where
  "valid_public_key pk =
     (0 < key_size (curve pk) \<and> field_element (curve pk) (numbers_x pk)
      \<and> field_element (curve pk) (numbers_y pk))"

section \<open>The pure functions of generate.py\<close>

definition convert_key_to_jwk ::
  "ec_public_key \<Rightarrow> (string, json) dict \<Rightarrow> exn + (string, json) dict" where
  "convert_key_to_jwk public_key options =
     (let curve_size = key_size (curve public_key);
          coordinate_size = (curve_size + 7) div 8
      in case to_bytes (numbers_x public_key) coordinate_size of
           Inl e \<Rightarrow> Inl e
         | Inr x_bytes \<Rightarrow>
      (case to_bytes (numbers_y public_key) coordinate_size of
           Inl e \<Rightarrow> Inl e
         | Inr y_bytes \<Rightarrow>
      (case dict_getitem EC_CURVE_NAMES curve_size of
           Inl e \<Rightarrow> Inl e
         | Inr crv \<Rightarrow>
      (case decode_ascii (urlsafe_b64encode x_bytes) of
           Inl e \<Rightarrow> Inl e
         | Inr x \<Rightarrow>
      (case decode_ascii (urlsafe_b64encode y_bytes) of
           Inl e \<Rightarrow> Inl e
         | Inr y \<Rightarrow>
             Inr (dict_update
                    [(''kty'', JString ''EC''), (''crv'', JString crv),
                     (''x'', JString x), (''y'', JString y)]
                    options))))))"

text \<open>
  \<^verbatim>\<open>hashlib.sha256\<close> is a library function; the fingerprint takes it as the parameter
  \<open>sha256\<close>.
\<close>

definition generate_key_fingerprint :: "(bytes \<Rightarrow> bytes) \<Rightarrow> ec_public_key \<Rightarrow> string" where
  "generate_key_fingerprint sha256 public_key = hexdigest (sha256 (public_bytes_der public_key))"

definition create_did_document ::
  "(bytes \<Rightarrow> bytes) \<Rightarrow> string \<Rightarrow> ec_public_key \<Rightarrow> exn + json" where
  "create_did_document sha256 did public_key =
     (let key_id = ''#'' @ generate_key_fingerprint sha256 public_key
      in case dict_getitem SIGNING_ALGORITHMS (key_size (curve public_key)) of
           Inl e \<Rightarrow> Inl e
         | Inr alg \<Rightarrow>
      (case convert_key_to_jwk public_key
              [(''kid'', JString key_id), (''alg'', JString alg)] of
           Inl e \<Rightarrow> Inl e
         | Inr jwk \<Rightarrow>
             Inr (JDict
               [(''id'', JString did),
                (''assertionMethod'', JList
                  [JDict
                    [(''@context'', JString ''https://www.w3.org/ns/did/v1''),
                     (''id'', JString (did @ key_id)),
                     (''type'', JString ''JsonWebKey2020''),
                     (''controller'', JString did),
                     (''publicKeyJwk'', JDict jwk)]])])))"

section \<open>The file system and the console\<close>

text \<open>
  \<^verbatim>\<open>load_or_generate_private_key\<close> reads and writes the file system and prints. The
  world is passed through explicitly. \<open>files\<close> holds the content of every path that
  exists; a path stands for the file it resolves to, so a symbolic link and its target are
  one path. \<open>exists_error\<close>, \<open>read_error\<close> and \<open>write_error\<close> say for which paths the
  operating system refuses the operation, and with which message: \<^verbatim>\<open>Path.exists()\<close>
  raises every \<^verbatim>\<open>OSError\<close> but the few that mean that the path does not exist (so it
  raises in a directory that may not be searched, or on a name that is too long);
  reading and writing fail on a directory, on missing permissions, on a missing parent
  directory. \<open>stdout_error\<close> and \<open>stderr_error\<close> say whether \<^verbatim>\<open>print\<close> to the stream
  raises (a closed pipe). \<open>trace\<close> records every file-system call and every line
  printed, in order. A refused write changes no file. One process runs alone: nothing
  else changes the files between two calls.
\<close>

type_synonym path = string

datatype event =
    Exists path
  | ReadBytes path
  | WriteBytes path bytes
  | Print string
  | PrintErr string

record world =
  files :: "path \<rightharpoonup> bytes"
  exists_error :: "path \<rightharpoonup> string"
  read_error :: "path \<rightharpoonup> string"
  write_error :: "path \<rightharpoonup> string"
  stdout_error :: "string option"
  stderr_error :: "string option"
  trace :: "event list"

definition log :: "event \<Rightarrow> world \<Rightarrow> world" where
  "log ev w = w\<lparr>trace := trace w @ [ev]\<rparr>"

definition path_exists :: "path \<Rightarrow> world \<Rightarrow> (exn + bool) \<times> world" where
  "path_exists p w =
     (case exists_error w p of
        Some msg \<Rightarrow> (Inl (OSError msg), log (Exists p) w)
      | None \<Rightarrow> (Inr (files w p \<noteq> None), log (Exists p) w))"

text \<open>\<^verbatim>\<open>print(line)\<close> and \<^verbatim>\<open>print(line, file=sys.stderr)\<close>.\<close>

definition print_stdout :: "string \<Rightarrow> world \<Rightarrow> (exn + unit) \<times> world" where
  "print_stdout line w =
     (case stdout_error w of
        Some msg \<Rightarrow> (Inl (OSError msg), w)
      | None \<Rightarrow> (Inr (), log (Print line) w))"

definition print_stderr :: "string \<Rightarrow> world \<Rightarrow> (exn + unit) \<times> world" where
  "print_stderr line w =
     (case stderr_error w of
        Some msg \<Rightarrow> (Inl (OSError msg), w)
      | None \<Rightarrow> (Inr (), log (PrintErr line) w))"

definition read_bytes :: "path \<Rightarrow> world \<Rightarrow> (exn + bytes) \<times> world" where
  "read_bytes p w =
     (case read_error w p of
        Some msg \<Rightarrow> (Inl (OSError msg), log (ReadBytes p) w)
      | None \<Rightarrow>
         (case files w p of
            None \<Rightarrow> (Inl (OSError ''No such file or directory''), log (ReadBytes p) w)
          | Some content \<Rightarrow> (Inr content, log (ReadBytes p) w)))"

definition write_bytes :: "path \<Rightarrow> bytes \<Rightarrow> world \<Rightarrow> (exn + unit) \<times> world" where
  "write_bytes p content w =
     (case write_error w p of
        Some msg \<Rightarrow> (Inl (OSError msg), log (WriteBytes p content) w)
      | None \<Rightarrow> (Inr (), (log (WriteBytes p content) w)\<lparr>files := (files w)(p \<mapsto> content)\<rparr>))"

text \<open>\<^verbatim>\<open>str(e)\<close>, which the error messages embed.\<close>

fun str_exn :: "exn \<Rightarrow> string" where
  "str_exn (KeyError k) = show_int k"
| "str_exn (OverflowError msg) = msg"
| "str_exn (ValueError msg) = msg"
| "str_exn (UnicodeDecodeError msg) = msg"
| "str_exn (OSError msg) = msg"
| "str_exn (UnsupportedAlgorithm msg) = msg"
| "str_exn (SystemExit code) = show_int code"

text \<open>
  \<^verbatim>\<open>die\<close> prints the message on standard error and raises \<^verbatim>\<open>SystemExit(1)\<close>; when the
  \<^verbatim>\<open>print\<close> raises, that exception leaves \<^verbatim>\<open>die\<close> instead.
\<close>

definition die :: "string \<Rightarrow> world \<Rightarrow> (exn + 'a) \<times> world" where
  "die message w =
     (case print_stderr (''Error: '' @ message) w of
        (Inl e, w') \<Rightarrow> (Inl e, w')
      | (Inr _, w') \<Rightarrow> (Inl (SystemExit 1), w'))"

text \<open>
  \<^verbatim>\<open>try: body  except Exception as e: handler\<close>: the handler runs in the world the body
  left, and only for an exception that is an \<^verbatim>\<open>Exception\<close>.
\<close>

definition try_except_Exception ::
  "(exn + 'a) \<times> world \<Rightarrow> (exn \<Rightarrow> world \<Rightarrow> (exn + 'a) \<times> world) \<Rightarrow> (exn + 'a) \<times> world" where
  "try_except_Exception body handler =
     (case body of
        (Inl e, w) \<Rightarrow> if is_Exception e then handler e w else (Inl e, w)
      | (Inr v, w) \<Rightarrow> (Inr v, w))"

text \<open>The events that write a file, and the events that report an error on standard error.\<close>

definition is_write :: "event \<Rightarrow> bool" where
  "is_write ev = (case ev of WriteBytes _ _ \<Rightarrow> True | _ \<Rightarrow> False)"

definition is_error_report :: "event \<Rightarrow> bool" where
  "is_error_report ev = (case ev of PrintErr _ \<Rightarrow> True | _ \<Rightarrow> False)"

section \<open>Key acquisition\<close>

text \<open>
  A private key object is modelled by its public key and by the bytes that
  \<^verbatim>\<open>private_bytes(Encoding.PEM, PrivateFormat.PKCS8, NoEncryption())\<close> returns. The parser
  \<^verbatim>\<open>serialization.load_pem_private_key(data, password=None)\<close> and the generator
  \<^verbatim>\<open>ec.generate_private_key\<close> belong to the library and are parameters: the parser
  either raises an \<^verbatim>\<open>Exception\<close> with a message (\<open>Inl\<close>) or returns a private key of
  some type; the generator raises \<^verbatim>\<open>UnsupportedAlgorithm\<close> on a curve for which
  \<open>generate_error\<close> has a message, and returns the key that this run's randomness gives
  otherwise.
\<close>

record ec_private_key =
  public_key :: ec_public_key
  private_bytes_pem :: bytes

datatype private_key =
    EllipticCurvePrivateKey ec_private_key
  | OtherPrivateKey string

record crypto =
  load_pem_private_key :: "bytes \<Rightarrow> string + private_key"
  generate_private_key :: "elliptic_curve \<Rightarrow> ec_private_key"
  generate_error :: "elliptic_curve \<rightharpoonup> string"

definition DEFAULT_EC_CURVE :: elliptic_curve where
  "DEFAULT_EC_CURVE = \<lparr>curve_name = ''secp384r1'', key_size = 384\<rparr>"

text \<open>
  \<^verbatim>\<open>key_path.exists()\<close>, both \<^verbatim>\<open>print\<close> calls and \<^verbatim>\<open>ec.generate_private_key\<close> stand
  outside the \<^verbatim>\<open>try\<close> blocks: an exception of theirs leaves the function as it is.
\<close>

definition load_or_generate_private_key ::
  "crypto \<Rightarrow> path \<Rightarrow> world \<Rightarrow> (exn + ec_private_key) \<times> world" where
  "load_or_generate_private_key lib key_path w0 =
     (case path_exists key_path w0 of
        (Inl e, w1) \<Rightarrow> (Inl e, w1)
      | (Inr True, w1) \<Rightarrow>
          (case print_stdout (''Using existing private key at `'' @ key_path @ ''`'') w1 of
             (Inl e, w2) \<Rightarrow> (Inl e, w2)
           | (Inr _, w2) \<Rightarrow>
               try_except_Exception
                 (case read_bytes key_path w2 of
                    (Inl e, w3) \<Rightarrow> (Inl e, w3)
                  | (Inr content, w3) \<Rightarrow>
                      (case load_pem_private_key lib content of
                         Inl msg \<Rightarrow> (Inl (ValueError msg), w3)
                       | Inr (OtherPrivateKey _) \<Rightarrow>
                           die ''Only elliptic curve keys are supported'' w3
                       | Inr (EllipticCurvePrivateKey private_key) \<Rightarrow> (Inr private_key, w3)))
                 (\<lambda>e. die (''Could not load private key: '' @ str_exn e)))
      | (Inr False, w1) \<Rightarrow>
          (case print_stdout (''Generating new private key at `'' @ key_path @ ''`'') w1 of
             (Inl e, w2) \<Rightarrow> (Inl e, w2)
           | (Inr _, w2) \<Rightarrow>
               (case generate_error lib DEFAULT_EC_CURVE of
                  Some msg \<Rightarrow> (Inl (UnsupportedAlgorithm msg), w2)
                | None \<Rightarrow>
                    (let private_key = generate_private_key lib DEFAULT_EC_CURVE
                     in case try_except_Exception
                               (write_bytes key_path (private_bytes_pem private_key) w2)
                               (\<lambda>e. die (''Could not write private key: '' @ str_exn e)) of
                          (Inl e, w3) \<Rightarrow> (Inl e, w3)
                        | (Inr _, w3) \<Rightarrow> (Inr private_key, w3)))))"

text \<open>
  The worlds in which \<^verbatim>\<open>exists()\<close> answers for the key path and both streams accept
  output.
\<close>

definition console_and_stat_work :: "path \<Rightarrow> world \<Rightarrow> bool" where
  "console_and_stat_work key_path w =
     (exists_error w key_path = None \<and> stdout_error w = None \<and> stderr_error w = None)"

section \<open>Folder names\<close>

text \<open>
  The regular expressions the script's pattern is made of, and \<^verbatim>\<open>re.fullmatch\<close> on
  them: the whole string must be in the pattern's language. A \<^typ>\<open>string\<close> holds
  characters with codes up to 255; the pattern has no flags, so its ranges are ranges of
  character codes, and a character beyond them is rejected like any other outside the
  class.
\<close>

datatype class_item = Range char char | Single char

datatype regex =
    Char char
  | Class "class_item list"
  | Seq regex regex
  | Alt regex regex
  | Plus regex

fun in_item :: "char \<Rightarrow> class_item \<Rightarrow> bool" where
  "in_item c (Range lo hi) = ((of_char lo :: nat) \<le> of_char c \<and> (of_char c :: nat) \<le> of_char hi)"
| "in_item c (Single d) = (c = d)"

function fullmatch :: "regex \<Rightarrow> string \<Rightarrow> bool" where
  "fullmatch (Char d) s = (s = [d])"
| "fullmatch (Class items) s = (case s of [c] \<Rightarrow> list_ex (in_item c) items | _ \<Rightarrow> False)"
| "fullmatch (Seq r1 r2) s =
     list_ex (\<lambda>i. fullmatch r1 (take i s) \<and> fullmatch r2 (drop i s)) [0..<Suc (length s)]"
| "fullmatch (Alt r1 r2) s = (fullmatch r1 s \<or> fullmatch r2 s)"
| "fullmatch (Plus r) s =
     (fullmatch r s \<or>
      list_ex (\<lambda>i. fullmatch r (take i s) \<and> fullmatch (Plus r) (drop i s)) [1..<length s])"
  by pat_completeness auto
termination
  by (relation "measure size <*lex*> measure length") auto

declare fullmatch.simps [simp del]

text \<open>The pattern \<^verbatim>\<open>\.[a-zA-Z0-9_-]+|[a-zA-Z0-9_-]+\<close>.\<close>

definition folder_chars :: regex where
  "folder_chars =
     Class [Range CHR ''a'' CHR ''z'', Range CHR ''A'' CHR ''Z'', Range CHR ''0'' CHR ''9'',
            Single CHR ''_'', Single CHR ''-'']"

definition folder_pattern :: regex where
  "folder_pattern = Alt (Seq (Char CHR ''.'') (Plus folder_chars)) (Plus folder_chars)"

definition is_valid_did_folder_name :: "string \<Rightarrow> bool" where
  "is_valid_did_folder_name name = fullmatch folder_pattern name"

text \<open>
  The grammar as the specification words it, to be compared with the pattern: a
  character of \<^verbatim>\<open>[A-Za-z0-9_-]\<close> (the codes 65 to 90 are \<^verbatim>\<open>A-Z\<close>, 97 to 122 are
  \<^verbatim>\<open>a-z\<close>, 48 to 57 are \<^verbatim>\<open>0-9\<close>), and a name that is a literal dot followed by one or
  more such characters, or one or more such characters alone.
\<close>

definition name_char :: "char \<Rightarrow> bool" where
  "name_char c =
     (let n = (of_char c :: nat)
      in (65 \<le> n \<and> n \<le> 90) \<or> (97 \<le> n \<and> n \<le> 122) \<or> (48 \<le> n \<and> n \<le> 57)
         \<or> c = CHR ''_'' \<or> c = CHR ''-'')"

definition one_or_more_name_chars :: "string \<Rightarrow> bool" where
  "one_or_more_name_chars s = (s \<noteq> [] \<and> list_all name_char s)"

definition folder_name_grammar :: "string \<Rightarrow> bool" where
  "folder_name_grammar name =
     ((case name of [] \<Rightarrow> False | c # rest \<Rightarrow> c = CHR ''.'' \<and> one_or_more_name_chars rest)
      \<or> one_or_more_name_chars name)"

section \<open>A concrete key\<close>

text \<open>
  The base point of the curve P-256 as a public key (the key whose private value is 1),
  with its SubjectPublicKeyInfo encoding, and the SHA-256 digest of that encoding. The
  digest function is a table with this one entry.
\<close>

definition example_public_key :: ec_public_key where
  "example_public_key =
     \<lparr>curve = \<lparr>curve_name = ''secp256r1'', key_size = 256\<rparr>,
      numbers_x = 48439561293906451759052585252797914202762949526041747995844080717082404635286,
      numbers_y = 36134250956749795798585127919587881956611106672985015071877198253568414405109,
      public_bytes_der =
        [48, 89, 48, 19, 6, 7, 42, 134, 72, 206, 61, 2, 1, 6, 8, 42, 134, 72, 206, 61, 3, 1,
         7, 3, 66, 0, 4, 107, 23, 209, 242, 225, 44, 66, 71, 248, 188, 230, 229, 99, 164, 64,
         242, 119, 3, 125, 129, 45, 235, 51, 160, 244, 161, 57, 69, 216, 152, 194, 150, 79,
         227, 66, 226, 254, 26, 127, 155, 142, 231, 235, 74, 124, 15, 158, 22, 43, 206, 51,
         87, 107, 49, 94, 206, 203, 182, 64, 104, 55, 191, 81, 245]\<rparr>"

definition example_sha256 :: "bytes \<Rightarrow> bytes" where
  "example_sha256 data =
     (if data = public_bytes_der example_public_key
      then [92, 210, 82, 251, 12, 232, 147, 36, 54, 250, 248, 204, 209, 4, 9, 129, 184, 158,
            228, 173, 107, 159, 233, 226, 162, 183, 231, 26, 172, 178, 124, 211]
      else [])"

text \<open>
  The base point of P-224 as a public key: a key of the library on a curve that the
  script's tables do not list.
\<close>

definition example_p224_key :: ec_public_key where
  "example_p224_key =
     \<lparr>curve = \<lparr>curve_name = ''secp224r1'', key_size = 224\<rparr>,
      numbers_x = 19277929113566293071110308034699488026831934219452440156649784352033,
      numbers_y = 19926808758034470970197974370888749184205991990603949537637343198772,
      public_bytes_der =
        [48, 78, 48, 16, 6, 7, 42, 134, 72, 206, 61, 2, 1, 6, 5, 43, 129, 4, 0, 33, 3, 58, 0,
         4, 183, 14, 12, 189, 107, 180, 191, 127, 50, 19, 144, 185, 74, 3, 193, 211, 86, 194,
         17, 34, 52, 50, 128, 214, 17, 92, 29, 33, 189, 55, 99, 136, 181, 247, 35, 251, 76,
         34, 223, 230, 205, 67, 117, 160, 90, 7, 71, 100, 68, 213, 129, 153, 133, 0, 126,
         52]\<rparr>"

section \<open>A concrete run of key acquisition\<close>

text \<open>
  The base point of P-384 as the key that the generator yields on the default curve,
  and a library whose parser knows three kinds of file content: the text that stands
  for this key's PEM encoding, a text that stands for an RSA key, and anything else,
  which it cannot parse.
\<close>

definition example_p384_key :: ec_public_key where
  "example_p384_key =
     \<lparr>curve = \<lparr>curve_name = ''secp384r1'', key_size = 384\<rparr>,
      numbers_x = 26247035095799689268623156744566981891852923491109213387815615900925518854738050089022388053975719786650872476732087,
      numbers_y = 8325710961489029985546751289520108179287853048861315594709205902480503199884419224438643760392947333078086511627871,
      public_bytes_der =
        [48, 118, 48, 16, 6, 7, 42, 134, 72, 206, 61, 2, 1, 6, 5, 43, 129, 4, 0, 34, 3, 98,
         0, 4, 170, 135, 202, 34, 190, 139, 5, 55, 142, 177, 199, 30, 243, 32, 173, 116, 110,
         29, 59, 98, 139, 167, 155, 152, 89, 247, 65, 224, 130, 84, 42, 56, 85, 2, 242, 93,
         191, 85, 41, 108, 58, 84, 94, 56, 114, 118, 10, 183, 54, 23, 222, 74, 150, 38, 44,
         111, 93, 158, 152, 191, 146, 146, 220, 41, 248, 244, 29, 189, 40, 154, 20, 124, 233,
         218, 49, 19, 181, 240, 184, 192, 10, 96, 177, 206, 29, 126, 129, 157, 122, 67, 29,
         124, 144, 234, 14, 95]\<rparr>"

definition example_pem :: bytes where
  "example_pem =
     [45, 45, 45, 45, 45, 66, 69, 71, 73, 78, 32, 80, 82, 73, 86, 65, 84, 69, 32, 75, 69,
      89, 45, 45, 45, 45, 45]"

definition example_rsa_pem :: bytes where
  "example_rsa_pem =
     [45, 45, 45, 45, 45, 66, 69, 71, 73, 78, 32, 82, 83, 65, 32, 80, 82, 73, 86, 65, 84,
      69, 32, 75, 69, 89, 45, 45, 45, 45, 45]"

definition example_private_key :: ec_private_key where
  "example_private_key = \<lparr>public_key = example_p384_key, private_bytes_pem = example_pem\<rparr>"

definition example_crypto :: crypto where
  "example_crypto =
     \<lparr>load_pem_private_key =
        (\<lambda>content.
           if content = example_pem then Inr (EllipticCurvePrivateKey example_private_key)
           else if content = example_rsa_pem then Inr (OtherPrivateKey ''RSAPrivateKey'')
           else Inl ''Could not deserialize key data''),
      generate_private_key = (\<lambda>c. example_private_key),
      generate_error = Map.empty\<rparr>"

definition world_with :: "(path \<rightharpoonup> bytes) \<Rightarrow> world" where
  "world_with fs =
     \<lparr>files = fs, exists_error = Map.empty, read_error = Map.empty,
      write_error = Map.empty, stdout_error = None, stderr_error = None, trace = []\<rparr>"

text \<open>
  Runs of key acquisition with this library: on an empty file system, again in the
  world the first run left, on a file that holds an RSA key, on an empty file, on a
  file that holds the elliptic-curve key but may not be read, and on a key path whose
  name is too long for \<^verbatim>\<open>exists()\<close>.
\<close>

definition example_first_run :: "(exn + ec_private_key) \<times> world" where
  "example_first_run =
     load_or_generate_private_key example_crypto ''private_key.pem'' (world_with Map.empty)"

definition example_second_run :: "(exn + ec_private_key) \<times> world" where
  "example_second_run =
     load_or_generate_private_key example_crypto ''private_key.pem'' (snd example_first_run)"

definition example_rsa_run :: "(exn + ec_private_key) \<times> world" where
  "example_rsa_run =
     load_or_generate_private_key example_crypto ''private_key.pem''
       (world_with [''private_key.pem'' \<mapsto> example_rsa_pem])"

definition example_garbage_run :: "(exn + ec_private_key) \<times> world" where
  "example_garbage_run =
     load_or_generate_private_key example_crypto ''private_key.pem''
       (world_with [''private_key.pem'' \<mapsto> []])"

definition example_unreadable_world :: world where
  "example_unreadable_world =
     (world_with [''private_key.pem'' \<mapsto> example_pem])
       \<lparr>read_error := [''private_key.pem'' \<mapsto> ''Permission denied'']\<rparr>"

definition example_unreadable_run :: "(exn + ec_private_key) \<times> world" where
  "example_unreadable_run =
     load_or_generate_private_key example_crypto ''private_key.pem'' example_unreadable_world"

definition example_long_name_run :: "(exn + ec_private_key) \<times> world" where
  "example_long_name_run =
     load_or_generate_private_key example_crypto ''private_key.pem''
       ((world_with Map.empty)
          \<lparr>exists_error := [''private_key.pem'' \<mapsto> ''File name too long'']\<rparr>)"

section \<open>Bytes and base64\<close>

lemma length_big_endian: "length (big_endian n v) = n"
  by (induction n arbitrary: v) simp_all

lemma from_bytes_snoc: "from_bytes (bs @ [b]) = from_bytes bs * 256 + uint b"
  by (simp add: from_bytes_def)

lemma uint_byte_of_int: "uint (word_of_int v :: byte) = v mod 256"
  by (simp add: uint_word_of_int)

lemma from_bytes_big_endian: "from_bytes (big_endian n v) = v mod 256 ^ n"
proof (induction n arbitrary: v)
  case 0
  show ?case by (simp add: from_bytes_def)
next
  case (Suc n)
  have "from_bytes (big_endian (Suc n) v) = (v div 256) mod 256 ^ n * 256 + v mod 256"
    by (simp add: from_bytes_snoc uint_byte_of_int Suc.IH)
  also have "\<dots> = v mod 256 ^ Suc n"
    using zmod_zmult2_eq [of "256 ^ n" v 256] by simp
  finally show ?case .
qed

lemma big_endian_zero: "big_endian k 0 = replicate k 0"
  by (induction k) (simp_all add: replicate_append_same)

lemma big_endian_padded:
  "0 \<le> v \<Longrightarrow> v < 256 ^ m \<Longrightarrow> big_endian (k + m) v = replicate k 0 @ big_endian m v"
proof (induction m arbitrary: v)
  case 0
  then have "v = 0" by simp
  then show ?case by (simp add: big_endian_zero)
next
  case (Suc m)
  have "0 \<le> v div 256" using Suc.prems by simp
  moreover have "v div 256 < 256 ^ m" using Suc.prems by (simp add: div_less_iff_less_mult mult.commute)
  ultimately show ?case using Suc.IH [of "v div 256"] by simp
qed

lemma length_b64encode: "length (b64encode bs) = 4 * ((length bs + 2) div 3)"
proof (induction bs rule: b64encode.induct)
  case (4 a b c bs)
  have "(length bs + 5) div 3 = Suc ((length bs + 2) div 3)" by arith
  then show ?case using 4 by (simp add: add.commute)
qed simp_all

lemma length_b64_alphabet: "length b64_alphabet = 64"
  by (simp add: b64_alphabet_def)

lemma sextet_in_alphabet: "i < 64 \<Longrightarrow> sextet i \<in> set b64_alphabet"
  by (simp add: sextet_def length_b64_alphabet)

lemma unat_byte_less: "unat (a :: byte) < 256"
  using unsigned_less [of a, where 'a = nat] by simp

lemma b64encode_chars:
  "set (b64encode bs) \<subseteq> set b64_alphabet \<union> {CHR ''=''}"
proof (induction bs rule: b64encode.induct)
  case 1
  show ?case by simp
next
  case (2 a)
  have "unat a div 4 < 64" "unat a mod 4 * 16 < 64" using unat_byte_less [of a] by arith+
  then show ?case by (simp add: sextet_in_alphabet)
next
  case (3 a b)
  have "unat a div 4 < 64" "unat a mod 4 * 16 + unat b div 16 < 64" "unat b mod 16 * 4 < 64"
    using unat_byte_less [of a] unat_byte_less [of b] by arith+
  then show ?case by (simp add: sextet_in_alphabet)
next
  case (4 a b c bs)
  have "unat a div 4 < 64" "unat a mod 4 * 16 + unat b div 16 < 64"
    "unat b mod 16 * 4 + unat c div 64 < 64" "unat c mod 64 < 64"
    using unat_byte_less [of a] unat_byte_less [of b] unat_byte_less [of c] by arith+
  then show ?case using 4 by (simp add: sextet_in_alphabet)
qed

lemma no_pad_in_alphabet: "CHR ''='' \<notin> set b64_alphabet"
  by (simp add: b64_alphabet_def)

lemma alphabet_ascii: "list_all (\<lambda>c. of_char c < (128::nat)) b64_alphabet"
  by (simp add: b64_alphabet_def)

lemma sextet_not_pad:
  "i < 64 \<Longrightarrow> (sextet i = CHR ''='') = False" "i < 64 \<Longrightarrow> (CHR ''='' = sextet i) = False"
  using sextet_in_alphabet [of i] no_pad_in_alphabet by auto

lemma pad_not_in_b64encode_iff:
  "CHR ''='' \<in> set (b64encode bs) \<longleftrightarrow> length bs mod 3 \<noteq> 0"
proof (induction bs rule: b64encode.induct)
  case (4 a b c bs)
  have "unat a div 4 < 64" "unat a mod 4 * 16 + unat b div 16 < 64"
    "unat b mod 16 * 4 + unat c div 64 < 64" "unat c mod 64 < 64"
    using unat_byte_less [of a] unat_byte_less [of b] unat_byte_less [of c] by arith+
  then have "CHR ''='' \<in> set (b64encode (a # b # c # bs)) \<longleftrightarrow> CHR ''='' \<in> set (b64encode bs)"
    by (simp add: sextet_not_pad)
  moreover have "length (a # b # c # bs) mod 3 = length bs mod 3" by simp
  ultimately show ?case using 4 by simp
qed simp_all

lemma b64encode_one_pad:
  "length bs mod 3 = 2 \<Longrightarrow>
   \<exists>body. b64encode bs = body @ ''='' \<and> CHR ''='' \<notin> set body"
proof (induction bs rule: b64encode.induct)
  case 1
  then show ?case by simp
next
  case (2 a)
  then show ?case by simp
next
  case (3 a b)
  have "unat a div 4 < 64" "unat a mod 4 * 16 + unat b div 16 < 64" "unat b mod 16 * 4 < 64"
    using unat_byte_less [of a] unat_byte_less [of b] by arith+
  then have "CHR ''='' \<notin> set [sextet (unat a div 4), sextet (unat a mod 4 * 16 + unat b div 16),
      sextet (unat b mod 16 * 4)]"
    by (simp add: sextet_not_pad)
  then show ?case by (intro exI [where x = "[sextet (unat a div 4), sextet (unat a mod 4 * 16 + unat b div 16),
      sextet (unat b mod 16 * 4)]"]) simp
next
  case (4 a b c bs)
  have "length bs mod 3 = 2" using 4(2) by simp
  then obtain body where body: "b64encode bs = body @ ''=''" "CHR ''='' \<notin> set body"
    using 4(1) by blast
  have "unat a div 4 < 64" "unat a mod 4 * 16 + unat b div 16 < 64"
    "unat b mod 16 * 4 + unat c div 64 < 64" "unat c mod 64 < 64"
    using unat_byte_less [of a] unat_byte_less [of b] unat_byte_less [of c] by arith+
  then have "CHR ''='' \<notin> set ([sextet (unat a div 4), sextet (unat a mod 4 * 16 + unat b div 16),
      sextet (unat b mod 16 * 4 + unat c div 64), sextet (unat c mod 64)] @ body)"
    using body(2) by (simp add: sextet_not_pad)
  then show ?case using body(1)
    by (intro exI [where x = "[sextet (unat a div 4), sextet (unat a mod 4 * 16 + unat b div 16),
      sextet (unat b mod 16 * 4 + unat c div 64), sextet (unat c mod 64)] @ body"]) simp
qed

lemma urlsafe_translation_pad: "urlsafe_translation c = CHR ''='' \<longleftrightarrow> c = CHR ''=''"
  by (simp add: urlsafe_translation_def)

lemma pad_in_map_urlsafe_translation:
  "CHR ''='' \<in> set (map urlsafe_translation s) \<longleftrightarrow> CHR ''='' \<in> set s"
  by (induction s) (auto simp: urlsafe_translation_def)

lemma length_urlsafe_b64encode: "length (urlsafe_b64encode bs) = 4 * ((length bs + 2) div 3)"
  by (simp add: urlsafe_b64encode_def length_b64encode)

lemma pad_in_urlsafe_b64encode_iff:
  "CHR ''='' \<in> set (urlsafe_b64encode bs) \<longleftrightarrow> length bs mod 3 \<noteq> 0"
  unfolding urlsafe_b64encode_def pad_in_map_urlsafe_translation
  by (rule pad_not_in_b64encode_iff)

lemma urlsafe_b64encode_one_pad:
  assumes "length bs mod 3 = 2"
  shows "\<exists>body. urlsafe_b64encode bs = body @ ''='' \<and> CHR ''='' \<notin> set body"
proof -
  obtain body where body: "b64encode bs = body @ ''=''" "CHR ''='' \<notin> set body"
    using b64encode_one_pad [OF assms] by blast
  have "urlsafe_b64encode bs = map urlsafe_translation body @ ''=''"
    by (simp add: urlsafe_b64encode_def body(1) urlsafe_translation_def)
  moreover have "CHR ''='' \<notin> set (map urlsafe_translation body)"
    using body(2) by (simp only: pad_in_map_urlsafe_translation) simp
  ultimately show ?thesis by blast
qed

lemma urlsafe_translation_ascii:
  "of_char c < (128::nat) \<Longrightarrow> of_char (urlsafe_translation c) < (128::nat)"
  by (simp add: urlsafe_translation_def)

lemma urlsafe_b64encode_ascii: "list_all (\<lambda>c. of_char c < (128::nat)) (urlsafe_b64encode bs)"
proof -
  have "of_char c < (128::nat)" if "c \<in> set (b64encode bs)" for c
  proof -
    have "c \<in> set b64_alphabet \<or> c = CHR ''=''" using that b64encode_chars [of bs] by auto
    then show ?thesis using alphabet_ascii by (auto simp: list_all_iff)
  qed
  then show ?thesis
    by (simp add: urlsafe_b64encode_def list_all_iff urlsafe_translation_ascii)
qed

lemma decode_ascii_urlsafe_b64encode:
  "decode_ascii (urlsafe_b64encode bs) = Inr (urlsafe_b64encode bs)"
  by (simp add: decode_ascii_def urlsafe_b64encode_ascii)

lemma map_of_dict_update:
  "k \<notin> fst ` set e \<Longrightarrow> map_of (dict_update d e) k = map_of d k"
  by (induction d e rule: dict_update.induct) (auto simp: update_conv')

lemma ceiling_eighth: "\<lceil>real_of_int b / 8\<rceil> = (b + 7) div 8"
proof -
  have "\<lceil>real_of_int b / real_of_int 8\<rceil> = - (- b div 8)"
    by (rule ceiling_divide_eq_div)
  moreover have "- (- b div 8) = (b + 7) div 8" by presburger
  ultimately show ?thesis by simp
qed

lemma field_fits_coordinate_size:
  assumes "0 < b"
  shows "(2::int) ^ nat b \<le> 256 ^ nat ((b + 7) div 8)"
proof -
  have "b \<le> 8 * ((b + 7) div 8)" by presburger
  then have "nat b \<le> 8 * nat ((b + 7) div 8)" using assms by linarith
  then have "(2::int) ^ nat b \<le> 2 ^ (8 * nat ((b + 7) div 8))"
    by (rule power_increasing) simp
  also have "\<dots> = 256 ^ nat ((b + 7) div 8)"
    by (simp add: power_mult)
  finally show ?thesis .
qed

lemma to_bytes_field_element:
  assumes "0 < key_size c" and "field_element c v"
  shows "to_bytes v ((key_size c + 7) div 8) = Inr (big_endian (nat ((key_size c + 7) div 8)) v)"
proof -
  have "v < 256 ^ nat ((key_size c + 7) div 8)"
    using assms field_fits_coordinate_size [of "key_size c"] by (simp add: field_element_def)
  moreover have "0 \<le> (key_size c + 7) div 8" using assms(1) by presburger
  moreover have "0 \<le> v" using assms(2) by (simp add: field_element_def)
  ultimately show ?thesis by (simp add: to_bytes_def)
qed

lemma convert_key_to_jwk_valid:
  assumes "valid_public_key pk"
  shows "convert_key_to_jwk pk options =
    (case dict_getitem EC_CURVE_NAMES (key_size (curve pk)) of
       Inl e \<Rightarrow> Inl e
     | Inr crv \<Rightarrow>
         Inr (dict_update
           [(''kty'', JString ''EC''), (''crv'', JString crv),
            (''x'', JString (urlsafe_b64encode
                (big_endian (nat ((key_size (curve pk) + 7) div 8)) (numbers_x pk)))),
            (''y'', JString (urlsafe_b64encode
                (big_endian (nat ((key_size (curve pk) + 7) div 8)) (numbers_y pk))))]
           options))"
proof -
  have "to_bytes (numbers_x pk) ((key_size (curve pk) + 7) div 8) =
      Inr (big_endian (nat ((key_size (curve pk) + 7) div 8)) (numbers_x pk))"
    and "to_bytes (numbers_y pk) ((key_size (curve pk) + 7) div 8) =
      Inr (big_endian (nat ((key_size (curve pk) + 7) div 8)) (numbers_y pk))"
    using assms by (simp_all add: valid_public_key_def to_bytes_field_element)
  then show ?thesis
    by (simp add: convert_key_to_jwk_def Let_def decode_ascii_urlsafe_b64encode split: sum.splits)
qed

section \<open>The curve registry\<close>

lemma EC_CURVE_NAMES_lookup:
  "dict_getitem EC_CURVE_NAMES b =
     (if b = 256 then Inr ''P-256'' else if b = 384 then Inr ''P-384''
      else if b = 521 then Inr ''P-521'' else Inl (KeyError b))"
  by (simp add: dict_getitem_def EC_CURVE_NAMES_def)

lemma SIGNING_ALGORITHMS_lookup:
  "dict_getitem SIGNING_ALGORITHMS b =
     (if b = 256 then Inr ''ES256'' else if b = 384 then Inr ''ES384''
      else if b = 521 then Inr ''ES512'' else Inl (KeyError b))"
  by (simp add: dict_getitem_def SIGNING_ALGORITHMS_def)

text \<open>
  Claim C3. The registry maps 256 to \<^verbatim>\<open>P-256\<close> and \<^verbatim>\<open>ES256\<close>, 384 to \<^verbatim>\<open>P-384\<close> and
  \<^verbatim>\<open>ES384\<close>, 521 to \<^verbatim>\<open>P-521\<close> and \<^verbatim>\<open>ES512\<close>. For every other bit size both lookups
  raise (a \<^verbatim>\<open>KeyError\<close> carrying the bit size, the script's form of an unsupported-curve
  error); no default value is returned.
\<close>

theorem curve_registry_lookup:
  "dict_getitem EC_CURVE_NAMES 256 = Inr ''P-256''
   \<and> dict_getitem SIGNING_ALGORITHMS 256 = Inr ''ES256''
   \<and> dict_getitem EC_CURVE_NAMES 384 = Inr ''P-384''
   \<and> dict_getitem SIGNING_ALGORITHMS 384 = Inr ''ES384''
   \<and> dict_getitem EC_CURVE_NAMES 521 = Inr ''P-521''
   \<and> dict_getitem SIGNING_ALGORITHMS 521 = Inr ''ES512''
   \<and> (b \<notin> {256, 384, 521} \<longrightarrow>
        dict_getitem EC_CURVE_NAMES b = Inl (KeyError b)
        \<and> dict_getitem SIGNING_ALGORITHMS b = Inl (KeyError b))"
  by (simp add: EC_CURVE_NAMES_lookup SIGNING_ALGORITHMS_lookup)

theorem curve_registry_lookup_witness:
  "(512::int) \<notin> {256, 384, 521}
   \<and> dict_getitem EC_CURVE_NAMES 512 = Inl (KeyError 512)
   \<and> dict_getitem SIGNING_ALGORITHMS 512 = Inl (KeyError 512)"
  using curve_registry_lookup [of 512] by simp

section \<open>JWK encoding\<close>

lemma coordinate_size_nonneg: "0 < b \<Longrightarrow> 0 \<le> (b + 7) div (8::int)"
  by presburger

lemma big_endian_roundtrip:
  assumes "0 < key_size c" and "field_element c v"
  shows "from_bytes (big_endian (nat ((key_size c + 7) div 8)) v) = v"
proof -
  have "v < 256 ^ nat ((key_size c + 7) div 8)"
    using assms field_fits_coordinate_size [of "key_size c"] by (simp add: field_element_def)
  moreover have "0 \<le> v" using assms(2) by (simp add: field_element_def)
  ultimately show ?thesis by (simp add: from_bytes_big_endian)
qed

lemma big_endian_leading_zeros:
  assumes "0 \<le> v" and "v < 256 ^ m" and "m \<le> n"
  shows "take (n - m) (big_endian n v) = replicate (n - m) 0"
proof -
  have "big_endian ((n - m) + m) v = replicate (n - m) 0 @ big_endian m v"
    using assms(1,2) by (rule big_endian_padded)
  then show ?thesis using assms(3) by simp
qed

text \<open>
  Claim C1. For a key of the library on a curve of 256, 384 or 521 bits,
  \<^verbatim>\<open>convert_key_to_jwk\<close> returns the dictionary with the fields \<^verbatim>\<open>kty\<close>, \<^verbatim>\<open>crv\<close>, \<^verbatim>\<open>x\<close>
  and \<^verbatim>\<open>y\<close>, the caller's extra fields stored over it. The fields \<^verbatim>\<open>x\<close> and \<^verbatim>\<open>y\<close> it
  produces are the base64url encodings of byte strings of exactly \<open>\<lceil>b / 8\<rceil>\<close> bytes whose
  big-endian value is the coordinate; when the coordinate fits in \<open>m\<close> bytes, the bytes
  before the last \<open>m\<close> are zero. Where the extra fields name neither \<^verbatim>\<open>x\<close> nor \<^verbatim>\<open>y\<close>,
  these are the fields of the result.
\<close>

theorem convert_key_to_jwk_coordinates:
  assumes "valid_public_key pk" and "key_size (curve pk) \<in> {256, 384, 521}"
  shows "\<exists>crv x_bytes y_bytes jwk.
    convert_key_to_jwk pk options = Inr jwk
    \<and> jwk = dict_update
             [(''kty'', JString ''EC''), (''crv'', JString crv),
              (''x'', JString (urlsafe_b64encode x_bytes)),
              (''y'', JString (urlsafe_b64encode y_bytes))]
             options
    \<and> int (length x_bytes) = \<lceil>real_of_int (key_size (curve pk)) / 8\<rceil>
    \<and> int (length y_bytes) = \<lceil>real_of_int (key_size (curve pk)) / 8\<rceil>
    \<and> from_bytes x_bytes = numbers_x pk
    \<and> from_bytes y_bytes = numbers_y pk
    \<and> (\<forall>m. m \<le> length x_bytes \<and> numbers_x pk < 256 ^ m \<longrightarrow>
           take (length x_bytes - m) x_bytes = replicate (length x_bytes - m) 0)
    \<and> (\<forall>m. m \<le> length y_bytes \<and> numbers_y pk < 256 ^ m \<longrightarrow>
           take (length y_bytes - m) y_bytes = replicate (length y_bytes - m) 0)
    \<and> (''x'' \<notin> fst ` set options \<longrightarrow>
          map_of jwk ''x'' = Some (JString (urlsafe_b64encode x_bytes)))
    \<and> (''y'' \<notin> fst ` set options \<longrightarrow>
          map_of jwk ''y'' = Some (JString (urlsafe_b64encode y_bytes)))"
proof -
  define b where "b = key_size (curve pk)"
  define n where "n = nat ((b + 7) div 8)"
  define x_bytes where "x_bytes = big_endian n (numbers_x pk)"
  define y_bytes where "y_bytes = big_endian n (numbers_y pk)"
  have pos: "0 < b" and fx: "field_element (curve pk) (numbers_x pk)"
    and fy: "field_element (curve pk) (numbers_y pk)"
    using assms(1) by (simp_all add: valid_public_key_def b_def)
  obtain crv where crv: "dict_getitem EC_CURVE_NAMES b = Inr crv"
    using assms(2) by (auto simp: EC_CURVE_NAMES_lookup b_def)
  have result: "convert_key_to_jwk pk options =
      Inr (dict_update
             [(''kty'', JString ''EC''), (''crv'', JString crv),
              (''x'', JString (urlsafe_b64encode x_bytes)),
              (''y'', JString (urlsafe_b64encode y_bytes))]
             options)"
    using crv by (simp add: convert_key_to_jwk_valid [OF assms(1)] b_def n_def x_bytes_def y_bytes_def)
  have len: "int n = \<lceil>real_of_int b / 8\<rceil>"
    using coordinate_size_nonneg [OF pos] by (simp add: n_def ceiling_eighth)
  have lx: "length x_bytes = n" and ly: "length y_bytes = n"
    by (simp_all add: x_bytes_def y_bytes_def length_big_endian)
  have vx: "from_bytes x_bytes = numbers_x pk" and vy: "from_bytes y_bytes = numbers_y pk"
    using pos fx fy unfolding x_bytes_def y_bytes_def n_def b_def
    by (simp_all add: big_endian_roundtrip)
  have zx: "take (n - m) x_bytes = replicate (n - m) 0" if "m \<le> n" "numbers_x pk < 256 ^ m" for m
    unfolding x_bytes_def using fx that by (intro big_endian_leading_zeros) (simp_all add: field_element_def)
  have zy: "take (n - m) y_bytes = replicate (n - m) 0" if "m \<le> n" "numbers_y pk < 256 ^ m" for m
    unfolding y_bytes_def using fy that by (intro big_endian_leading_zeros) (simp_all add: field_element_def)
  define jwk where "jwk = dict_update
             [(''kty'', JString ''EC''), (''crv'', JString crv),
              (''x'', JString (urlsafe_b64encode x_bytes)),
              (''y'', JString (urlsafe_b64encode y_bytes))]
             options"
  have mx: "map_of jwk ''x'' = Some (JString (urlsafe_b64encode x_bytes))"
    if "''x'' \<notin> fst ` set options"
    using that by (simp add: jwk_def map_of_dict_update)
  have my: "map_of jwk ''y'' = Some (JString (urlsafe_b64encode y_bytes))"
    if "''y'' \<notin> fst ` set options"
    using that by (simp add: jwk_def map_of_dict_update)
  show ?thesis
    apply (rule exI [where x = crv], rule exI [where x = x_bytes], rule exI [where x = y_bytes],
        rule exI [where x = jwk])
    using result len lx ly vx vy zx zy mx my unfolding b_def jwk_def by simp
qed

lemma example_key_valid: "valid_public_key example_public_key"
  by code_simp

lemma example_jwk:
  "convert_key_to_jwk example_public_key [] =
     Inr [(''kty'', JString ''EC''), (''crv'', JString ''P-256''),
          (''x'', JString ''axfR8uEsQkf4vOblY6RA8ncDfYEt6zOg9KE5RdiYwpY=''),
          (''y'', JString ''T-NC4v4af5uO5-tKfA-eFivOM1drMV7Oy7ZAaDe_UfU='')]"
  by code_simp

lemma example_p224_key_valid: "valid_public_key example_p224_key"
  by code_simp

lemma example_p224_unregistered:
  "convert_key_to_jwk example_p224_key [] = Inl (KeyError 224)"
  by code_simp

theorem convert_key_to_jwk_coordinates_witness:
  "valid_public_key example_public_key
   \<and> key_size (curve example_public_key) \<in> {256, 384, 521}
   \<and> (\<exists>x_bytes y_bytes.
        convert_key_to_jwk example_public_key [] =
          Inr [(''kty'', JString ''EC''), (''crv'', JString ''P-256''),
               (''x'', JString (urlsafe_b64encode x_bytes)),
               (''y'', JString (urlsafe_b64encode y_bytes))]
        \<and> length x_bytes = 32 \<and> length y_bytes = 32
        \<and> from_bytes x_bytes = numbers_x example_public_key
        \<and> from_bytes y_bytes = numbers_y example_public_key)"
proof -
  have v: "valid_public_key example_public_key" by (rule example_key_valid)
  have k: "key_size (curve example_public_key) \<in> {256, 384, 521}"
    by (simp add: example_public_key_def)
  have c: "\<lceil>real_of_int (key_size (curve example_public_key)) / 8\<rceil> = 32"
    by (simp add: example_public_key_def)
  have crv: "dict_getitem EC_CURVE_NAMES (key_size (curve example_public_key)) = Inr ''P-256''"
    by (simp add: EC_CURVE_NAMES_lookup example_public_key_def)
  show ?thesis
    using convert_key_to_jwk_coordinates [OF v k, of "[]"] v k
    by (auto simp: c convert_key_to_jwk_valid [OF v] crv)
qed

lemma convert_key_to_jwk_registered:
  assumes "valid_public_key pk" and "key_size (curve pk) \<in> {256, 384, 521}"
  shows "\<exists>crv. dict_getitem EC_CURVE_NAMES (key_size (curve pk)) = Inr crv
    \<and> convert_key_to_jwk pk options =
      Inr (dict_update
        [(''kty'', JString ''EC''), (''crv'', JString crv),
         (''x'', JString (urlsafe_b64encode
             (big_endian (nat ((key_size (curve pk) + 7) div 8)) (numbers_x pk)))),
         (''y'', JString (urlsafe_b64encode
             (big_endian (nat ((key_size (curve pk) + 7) div 8)) (numbers_y pk))))]
        options)"
proof -
  obtain crv where crv: "dict_getitem EC_CURVE_NAMES (key_size (curve pk)) = Inr crv"
    using assms(2) by (auto simp: EC_CURVE_NAMES_lookup)
  then show ?thesis by (simp add: convert_key_to_jwk_valid [OF assms(1)])
qed

lemma urlsafe_b64encode_32:
  assumes "length bs = 32"
  shows "length (urlsafe_b64encode bs) = 44 \<and> last (urlsafe_b64encode bs) = CHR ''=''
    \<and> CHR ''='' \<notin> set (butlast (urlsafe_b64encode bs))"
proof -
  have "length bs mod 3 = 2" using assms by simp
  then obtain body where "urlsafe_b64encode bs = body @ ''=''" "CHR ''='' \<notin> set body"
    using urlsafe_b64encode_one_pad by blast
  then show ?thesis using assms length_urlsafe_b64encode [of bs] by simp
qed

text \<open>
  Claim C9. The base64url strings that \<^verbatim>\<open>convert_key_to_jwk\<close> produces for the
  coordinates keep their \<^verbatim>\<open>=\<close> padding. On the 256-bit curve the coordinate has 32
  bytes, and each string has 44 characters, the last one \<^verbatim>\<open>=\<close> and no other. On the
  384-bit and 521-bit curves the coordinate has 48 and 66 bytes, and the strings (64 and
  88 characters) contain no \<^verbatim>\<open>=\<close>.
\<close>

theorem jwk_coordinates_keep_padding:
  assumes "valid_public_key pk" and "key_size (curve pk) \<in> {256, 384, 521}"
  shows "\<exists>crv x_bytes y_bytes x y.
    x = urlsafe_b64encode x_bytes \<and> y = urlsafe_b64encode y_bytes
    \<and> convert_key_to_jwk pk options =
        Inr (dict_update
               [(''kty'', JString ''EC''), (''crv'', JString crv),
                (''x'', JString x), (''y'', JString y)]
               options)
    \<and> (if key_size (curve pk) = 256
        then length x_bytes = 32 \<and> length y_bytes = 32
             \<and> length x = 44 \<and> last x = CHR ''='' \<and> CHR ''='' \<notin> set (butlast x)
             \<and> length y = 44 \<and> last y = CHR ''='' \<and> CHR ''='' \<notin> set (butlast y)
        else if key_size (curve pk) = 384
        then length x_bytes = 48 \<and> length y_bytes = 48
             \<and> length x = 64 \<and> CHR ''='' \<notin> set x
             \<and> length y = 64 \<and> CHR ''='' \<notin> set y
        else length x_bytes = 66 \<and> length y_bytes = 66
             \<and> length x = 88 \<and> CHR ''='' \<notin> set x
             \<and> length y = 88 \<and> CHR ''='' \<notin> set y)"
proof -
  define n where "n = nat ((key_size (curve pk) + 7) div 8)"
  define x_bytes where "x_bytes = big_endian n (numbers_x pk)"
  define y_bytes where "y_bytes = big_endian n (numbers_y pk)"
  obtain crv where result: "convert_key_to_jwk pk options =
      Inr (dict_update
             [(''kty'', JString ''EC''), (''crv'', JString crv),
              (''x'', JString (urlsafe_b64encode x_bytes)),
              (''y'', JString (urlsafe_b64encode y_bytes))]
             options)"
    using convert_key_to_jwk_registered [OF assms, of options]
    unfolding x_bytes_def y_bytes_def n_def by blast
  have len: "length x_bytes = n" "length y_bytes = n"
    by (simp_all add: x_bytes_def y_bytes_def length_big_endian)
  have shape: "if key_size (curve pk) = 256
        then n = 32
             \<and> length (urlsafe_b64encode x_bytes) = 44 \<and> last (urlsafe_b64encode x_bytes) = CHR ''=''
             \<and> CHR ''='' \<notin> set (butlast (urlsafe_b64encode x_bytes))
             \<and> length (urlsafe_b64encode y_bytes) = 44 \<and> last (urlsafe_b64encode y_bytes) = CHR ''=''
             \<and> CHR ''='' \<notin> set (butlast (urlsafe_b64encode y_bytes))
        else if key_size (curve pk) = 384
        then n = 48
             \<and> length (urlsafe_b64encode x_bytes) = 64 \<and> CHR ''='' \<notin> set (urlsafe_b64encode x_bytes)
             \<and> length (urlsafe_b64encode y_bytes) = 64 \<and> CHR ''='' \<notin> set (urlsafe_b64encode y_bytes)
        else n = 66
             \<and> length (urlsafe_b64encode x_bytes) = 88 \<and> CHR ''='' \<notin> set (urlsafe_b64encode x_bytes)
             \<and> length (urlsafe_b64encode y_bytes) = 88 \<and> CHR ''='' \<notin> set (urlsafe_b64encode y_bytes)"
  proof (cases "key_size (curve pk) = 256")
    case True
    then have "n = 32" by (simp add: n_def)
    then show ?thesis using True len urlsafe_b64encode_32 [of x_bytes] urlsafe_b64encode_32 [of y_bytes]
      by simp
  next
    case False
    show ?thesis
    proof (cases "key_size (curve pk) = 384")
      case True
      then have "n = 48" by (simp add: n_def)
      then show ?thesis using True len
        by (simp add: length_urlsafe_b64encode pad_in_urlsafe_b64encode_iff)
    next
      case f: False
      then have "key_size (curve pk) = 521" using False assms(2) by simp
      then have "n = 66" by (simp add: n_def)
      then show ?thesis using False f len
        by (simp add: length_urlsafe_b64encode pad_in_urlsafe_b64encode_iff)
    qed
  qed
  show ?thesis
    apply (rule exI [where x = crv], rule exI [where x = x_bytes], rule exI [where x = y_bytes])
    apply (rule exI [where x = "urlsafe_b64encode x_bytes"], rule exI [where x = "urlsafe_b64encode y_bytes"])
    using result len shape by (simp split: if_splits)
qed

theorem jwk_coordinates_keep_padding_witness:
  "valid_public_key example_public_key
   \<and> key_size (curve example_public_key) \<in> {256, 384, 521}
   \<and> (\<exists>x y.
        convert_key_to_jwk example_public_key [] =
          Inr [(''kty'', JString ''EC''), (''crv'', JString ''P-256''),
               (''x'', JString x), (''y'', JString y)]
        \<and> length x = 44 \<and> last x = CHR ''='' \<and> CHR ''='' \<notin> set (butlast x)
        \<and> length y = 44 \<and> last y = CHR ''='' \<and> CHR ''='' \<notin> set (butlast y))"
proof -
  have v: "valid_public_key example_public_key" by (rule example_key_valid)
  have k: "key_size (curve example_public_key) \<in> {256, 384, 521}"
    by (simp add: example_public_key_def)
  have b: "key_size (curve example_public_key) = 256"
    by (simp add: example_public_key_def)
  show ?thesis
    using jwk_coordinates_keep_padding [OF v k, of "[]"] v k
    by (auto simp: b example_jwk)
qed

text \<open>
  Claim C10. For every key of the library the coordinates are nonnegative and below
  \<open>2 ^ (8 * \<lceil>b / 8\<rceil>)\<close>, so both \<^verbatim>\<open>to_bytes\<close> calls return. On a registered curve
  \<^verbatim>\<open>convert_key_to_jwk\<close> returns a dictionary; whenever it fails, the bit size is not
  registered and the error is the \<^verbatim>\<open>KeyError\<close> of the lookup in \<^verbatim>\<open>EC_CURVE_NAMES\<close>.
\<close>

theorem coordinate_rendering_total:
  assumes "valid_public_key pk"
  shows "0 \<le> numbers_x pk
    \<and> numbers_x pk < 2 ^ (8 * nat \<lceil>real_of_int (key_size (curve pk)) / 8\<rceil>)
    \<and> 0 \<le> numbers_y pk
    \<and> numbers_y pk < 2 ^ (8 * nat \<lceil>real_of_int (key_size (curve pk)) / 8\<rceil>)
    \<and> (\<exists>x_bytes. to_bytes (numbers_x pk) ((key_size (curve pk) + 7) div 8) = Inr x_bytes)
    \<and> (\<exists>y_bytes. to_bytes (numbers_y pk) ((key_size (curve pk) + 7) div 8) = Inr y_bytes)
    \<and> (key_size (curve pk) \<in> {256, 384, 521} \<longrightarrow>
          (\<exists>jwk. convert_key_to_jwk pk options = Inr jwk))
    \<and> (\<forall>e. convert_key_to_jwk pk options = Inl e \<longrightarrow>
          key_size (curve pk) \<notin> {256, 384, 521}
          \<and> e = KeyError (key_size (curve pk))
          \<and> dict_getitem EC_CURVE_NAMES (key_size (curve pk)) = Inl e)"
proof -
  define b where "b = key_size (curve pk)"
  have pos: "0 < b" and fx: "field_element (curve pk) (numbers_x pk)"
    and fy: "field_element (curve pk) (numbers_y pk)"
    using assms by (simp_all add: valid_public_key_def b_def)
  have bound: "(2::int) ^ nat b \<le> 2 ^ (8 * nat \<lceil>real_of_int b / 8\<rceil>)"
    using field_fits_coordinate_size [OF pos] by (simp add: ceiling_eighth power_mult)
  have x0: "0 \<le> numbers_x pk" and x1: "numbers_x pk < 2 ^ nat b"
    using fx by (simp_all add: field_element_def b_def)
  have x: "numbers_x pk < 2 ^ (8 * nat \<lceil>real_of_int b / 8\<rceil>)"
    using x1 bound by (rule less_le_trans)
  have y0: "0 \<le> numbers_y pk" and y1: "numbers_y pk < 2 ^ nat b"
    using fy by (simp_all add: field_element_def b_def)
  have y: "numbers_y pk < 2 ^ (8 * nat \<lceil>real_of_int b / 8\<rceil>)"
    using y1 bound by (rule less_le_trans)
  have tx: "\<exists>x_bytes. to_bytes (numbers_x pk) ((b + 7) div 8) = Inr x_bytes"
    using pos fx by (simp add: b_def to_bytes_field_element)
  have ty: "\<exists>y_bytes. to_bytes (numbers_y pk) ((b + 7) div 8) = Inr y_bytes"
    using pos fy by (simp add: b_def to_bytes_field_element)
  have ok: "\<exists>jwk. convert_key_to_jwk pk options = Inr jwk" if "b \<in> {256, 384, 521}"
    using convert_key_to_jwk_registered [OF assms, of options] that by (auto simp: b_def)
  have fail: "b \<notin> {256, 384, 521} \<and> e = KeyError b \<and> dict_getitem EC_CURVE_NAMES b = Inl e"
    if "convert_key_to_jwk pk options = Inl e" for e
    using that unfolding convert_key_to_jwk_valid [OF assms] b_def EC_CURVE_NAMES_lookup
    by (auto split: if_splits)
  show ?thesis using x0 x y0 y tx ty ok fail unfolding b_def by blast
qed

theorem coordinate_rendering_total_witness:
  "valid_public_key example_public_key
   \<and> numbers_x example_public_key < 2 ^ 256
   \<and> numbers_y example_public_key < 2 ^ 256
   \<and> (\<exists>jwk. convert_key_to_jwk example_public_key [] = Inr jwk)
   \<and> valid_public_key example_p224_key
   \<and> convert_key_to_jwk example_p224_key [] = Inl (KeyError 224)"
proof -
  have v: "valid_public_key example_public_key" by (rule example_key_valid)
  have c: "8 * nat \<lceil>real_of_int (key_size (curve example_public_key)) / 8\<rceil> = 256"
    by (simp add: example_public_key_def)
  have k: "key_size (curve example_public_key) \<in> {256, 384, 521}"
    by (simp add: example_public_key_def)
  have "numbers_x example_public_key < 2 ^ 256
      \<and> numbers_y example_public_key < 2 ^ 256
      \<and> (\<exists>jwk. convert_key_to_jwk example_public_key [] = Inr jwk)"
    using coordinate_rendering_total [OF v, of "[]"] k unfolding c by blast
  then show ?thesis
    using v example_p224_key_valid example_p224_unregistered by blast
qed

section \<open>The DID document\<close>

text \<open>
  Claim C4. For a key of the library on a registered curve, \<^verbatim>\<open>create_did_document\<close>
  returns the document whose \<^verbatim>\<open>id\<close> is the DID and whose \<^verbatim>\<open>assertionMethod\<close> is a list of
  one verification method: type \<^verbatim>\<open>JsonWebKey2020\<close>, controller the DID, id the DID
  followed by \<^verbatim>\<open>#\<close> and the fingerprint, and a JWK whose \<^verbatim>\<open>kid\<close> is \<^verbatim>\<open>#\<close> followed by the
  same fingerprint.
\<close>

theorem create_did_document_structure:
  assumes "valid_public_key pk" and "key_size (curve pk) \<in> {256, 384, 521}"
  shows "\<exists>fingerprint crv alg x y.
    fingerprint = generate_key_fingerprint sha256 pk
    \<and> dict_getitem EC_CURVE_NAMES (key_size (curve pk)) = Inr crv
    \<and> dict_getitem SIGNING_ALGORITHMS (key_size (curve pk)) = Inr alg
    \<and> create_did_document sha256 did pk =
        Inr (JDict
          [(''id'', JString did),
           (''assertionMethod'', JList
             [JDict
               [(''@context'', JString ''https://www.w3.org/ns/did/v1''),
                (''id'', JString (did @ ''#'' @ fingerprint)),
                (''type'', JString ''JsonWebKey2020''),
                (''controller'', JString did),
                (''publicKeyJwk'', JDict
                  [(''kty'', JString ''EC''), (''crv'', JString crv),
                   (''x'', JString x), (''y'', JString y),
                   (''kid'', JString (''#'' @ fingerprint)),
                   (''alg'', JString alg)])]])])"
proof -
  obtain crv where crv: "dict_getitem EC_CURVE_NAMES (key_size (curve pk)) = Inr crv"
    using assms(2) by (auto simp: EC_CURVE_NAMES_lookup)
  have jwk: "convert_key_to_jwk pk options =
      Inr (dict_update
        [(''kty'', JString ''EC''), (''crv'', JString crv),
         (''x'', JString (urlsafe_b64encode
             (big_endian (nat ((key_size (curve pk) + 7) div 8)) (numbers_x pk)))),
         (''y'', JString (urlsafe_b64encode
             (big_endian (nat ((key_size (curve pk) + 7) div 8)) (numbers_y pk))))]
        options)" for options
    by (simp add: convert_key_to_jwk_valid [OF assms(1)] crv)
  obtain alg where alg: "dict_getitem SIGNING_ALGORITHMS (key_size (curve pk)) = Inr alg"
    using assms(2) by (auto simp: SIGNING_ALGORITHMS_lookup)
  show ?thesis
    apply (rule exI [where x = "generate_key_fingerprint sha256 pk"])
    apply (rule exI [where x = crv], rule exI [where x = alg])
    apply (rule exI [where x = "urlsafe_b64encode
             (big_endian (nat ((key_size (curve pk) + 7) div 8)) (numbers_x pk))"])
    apply (rule exI [where x = "urlsafe_b64encode
             (big_endian (nat ((key_size (curve pk) + 7) div 8)) (numbers_y pk))"])
    by (simp add: create_did_document_def Let_def crv alg jwk)
qed

lemma example_fingerprint:
  "generate_key_fingerprint example_sha256 example_public_key =
     ''5cd252fb0ce8932436faf8ccd1040981b89ee4ad6b9fe9e2a2b7e71aacb27cd3''"
  by code_simp

lemma example_did_document:
  "create_did_document example_sha256 ''did:web:example.github.io'' example_public_key =
     Inr (JDict
       [(''id'', JString ''did:web:example.github.io''),
        (''assertionMethod'', JList
          [JDict
            [(''@context'', JString ''https://www.w3.org/ns/did/v1''),
             (''id'', JString ''did:web:example.github.io#5cd252fb0ce8932436faf8ccd1040981b89ee4ad6b9fe9e2a2b7e71aacb27cd3''),
             (''type'', JString ''JsonWebKey2020''),
             (''controller'', JString ''did:web:example.github.io''),
             (''publicKeyJwk'', JDict
               [(''kty'', JString ''EC''), (''crv'', JString ''P-256''),
                (''x'', JString ''axfR8uEsQkf4vOblY6RA8ncDfYEt6zOg9KE5RdiYwpY=''),
                (''y'', JString ''T-NC4v4af5uO5-tKfA-eFivOM1drMV7Oy7ZAaDe_UfU=''),
                (''kid'', JString ''#5cd252fb0ce8932436faf8ccd1040981b89ee4ad6b9fe9e2a2b7e71aacb27cd3''),
                (''alg'', JString ''ES256'')])]])])"
  by code_simp

theorem create_did_document_structure_witness:
  "valid_public_key example_public_key
   \<and> key_size (curve example_public_key) \<in> {256, 384, 521}
   \<and> (\<exists>fingerprint crv alg x y.
    fingerprint = generate_key_fingerprint example_sha256 example_public_key
    \<and> dict_getitem EC_CURVE_NAMES (key_size (curve example_public_key)) = Inr crv
    \<and> dict_getitem SIGNING_ALGORITHMS (key_size (curve example_public_key)) = Inr alg
    \<and> create_did_document example_sha256 ''did:web:example.github.io'' example_public_key =
        Inr (JDict
          [(''id'', JString ''did:web:example.github.io''),
           (''assertionMethod'', JList
             [JDict
               [(''@context'', JString ''https://www.w3.org/ns/did/v1''),
                (''id'', JString (''did:web:example.github.io'' @ ''#'' @ fingerprint)),
                (''type'', JString ''JsonWebKey2020''),
                (''controller'', JString ''did:web:example.github.io''),
                (''publicKeyJwk'', JDict
                  [(''kty'', JString ''EC''), (''crv'', JString crv),
                   (''x'', JString x), (''y'', JString y),
                   (''kid'', JString (''#'' @ fingerprint)),
                   (''alg'', JString alg)])]])]))
   \<and> generate_key_fingerprint example_sha256 example_public_key =
       ''5cd252fb0ce8932436faf8ccd1040981b89ee4ad6b9fe9e2a2b7e71aacb27cd3''"
proof -
  have v: "valid_public_key example_public_key" by (rule example_key_valid)
  have k: "key_size (curve example_public_key) \<in> {256, 384, 521}"
    by (simp add: example_public_key_def)
  show ?thesis
    by (intro conjI v k example_fingerprint create_did_document_structure [OF v k])
qed

section \<open>Folder name validation\<close>

lemma folder_class_iff:
  "list_ex (in_item c)
     [Range CHR ''a'' CHR ''z'', Range CHR ''A'' CHR ''Z'', Range CHR ''0'' CHR ''9'',
      Single CHR ''_'', Single CHR ''-''] = name_char c"
  by (auto simp: name_char_def Let_def)

lemma fullmatch_folder_chars: "fullmatch folder_chars s \<longleftrightarrow> (\<exists>c. s = [c] \<and> name_char c)"
  unfolding folder_chars_def fullmatch.simps(2) folder_class_iff
  by (auto split: list.splits)

lemma fullmatch_Seq_Char:
  "fullmatch (Seq (Char d) r) s \<longleftrightarrow> (\<exists>rest. s = d # rest \<and> fullmatch r rest)"
proof
  assume "fullmatch (Seq (Char d) r) s"
  then have "\<exists>i \<in> set [0..<Suc (length s)]. take i s = [d] \<and> fullmatch r (drop i s)"
    unfolding fullmatch.simps(3) list_ex_iff fullmatch.simps(1) .
  then obtain i where "take i s = [d]" "fullmatch r (drop i s)"
    by blast
  moreover have "s = take i s @ drop i s" by simp
  ultimately have "s = d # drop i s" by simp
  then show "\<exists>rest. s = d # rest \<and> fullmatch r rest"
    using \<open>fullmatch r (drop i s)\<close> by blast
next
  assume "\<exists>rest. s = d # rest \<and> fullmatch r rest"
  then obtain rest where s: "s = d # rest" and r: "fullmatch r rest" by blast
  have "1 \<in> {0..<Suc (length s)}" using s by simp
  then have "1 \<in> set [0..<Suc (length s)]" by (simp only: set_upt)
  moreover have "fullmatch (Char d) (take 1 s) \<and> fullmatch r (drop 1 s)"
    using s r by (simp add: fullmatch.simps(1))
  ultimately show "fullmatch (Seq (Char d) r) s"
    unfolding fullmatch.simps(3) list_ex_iff by blast
qed

lemma fullmatch_Plus_folder_chars_Cons:
  "fullmatch (Plus folder_chars) (c # t) \<longleftrightarrow>
     name_char c \<and> (t = [] \<or> fullmatch (Plus folder_chars) t)"
proof -
  have split: "(\<exists>i \<in> set [1..<length (c # t)].
        fullmatch folder_chars (take i (c # t)) \<and> fullmatch (Plus folder_chars) (drop i (c # t)))
      \<longleftrightarrow> (t \<noteq> [] \<and> name_char c \<and> fullmatch (Plus folder_chars) t)" (is "?L \<longleftrightarrow> ?R")
  proof
    assume ?L
    then obtain i where i: "1 \<le> i" "i < Suc (length t)"
      and m: "fullmatch folder_chars (take i (c # t))"
      and p: "fullmatch (Plus folder_chars) (drop i (c # t))"
      by auto
    from m obtain c' where c': "take i (c # t) = [c']" "name_char c'"
      by (auto simp: fullmatch_folder_chars)
    have "length (take i (c # t)) = i" using i by simp
    then have "i = 1" using c' by simp
    then show ?R using i c' p by auto
  next
    assume r: ?R
    then have "1 \<in> {1..<length (c # t)}" by simp
    then have "1 \<in> set [1..<length (c # t)]" by (simp only: set_upt)
    moreover have "fullmatch folder_chars (take 1 (c # t))
        \<and> fullmatch (Plus folder_chars) (drop 1 (c # t))"
      using r by (simp add: fullmatch_folder_chars)
    ultimately show ?L by blast
  qed
  have "fullmatch (Plus folder_chars) (c # t) \<longleftrightarrow>
      fullmatch folder_chars (c # t) \<or>
      (\<exists>i \<in> set [1..<length (c # t)].
        fullmatch folder_chars (take i (c # t)) \<and> fullmatch (Plus folder_chars) (drop i (c # t)))"
    by (subst fullmatch.simps(5)) (simp only: list_ex_iff)
  then show ?thesis unfolding split by (auto simp: fullmatch_folder_chars)
qed

lemma fullmatch_Plus_folder_chars:
  "fullmatch (Plus folder_chars) s \<longleftrightarrow> one_or_more_name_chars s"
proof (induction s)
  case Nil
  show ?case
    by (subst fullmatch.simps(5)) (simp add: fullmatch_folder_chars one_or_more_name_chars_def)
next
  case (Cons c t)
  show ?case
    unfolding fullmatch_Plus_folder_chars_Cons Cons.IH
    by (auto simp: one_or_more_name_chars_def)
qed

lemma is_valid_did_folder_name_iff:
  "is_valid_did_folder_name name \<longleftrightarrow> folder_name_grammar name"
  unfolding is_valid_did_folder_name_def folder_pattern_def fullmatch.simps(4)
    fullmatch_Seq_Char fullmatch_Plus_folder_chars folder_name_grammar_def
  by (auto split: list.splits)

lemma slash_not_name_char: "\<not> name_char CHR ''/''" "CHR ''/'' \<noteq> CHR ''.''"
  by (simp_all add: name_char_def)

text \<open>
  Claim C8. \<^verbatim>\<open>is_valid_did_folder_name\<close> accepts exactly the names of the grammar: a
  literal dot followed by one or more characters of \<^verbatim>\<open>[A-Za-z0-9_-]\<close>, or one or more
  such characters alone. So an accepted name is not empty, every character after the
  first is of that set, and the first is of that set or a dot; a name that contains
  \<^verbatim>\<open>/\<close> is rejected.
\<close>

theorem is_valid_did_folder_name_grammar:
  "is_valid_did_folder_name name = folder_name_grammar name
   \<and> (is_valid_did_folder_name name \<longrightarrow>
        (case name of [] \<Rightarrow> False
         | c # rest \<Rightarrow> (c = CHR ''.'' \<or> name_char c) \<and> list_all name_char rest))
   \<and> (CHR ''/'' \<in> set name \<longrightarrow> \<not> is_valid_did_folder_name name)"
proof -
  have shape: "case name of [] \<Rightarrow> False
         | c # rest \<Rightarrow> (c = CHR ''.'' \<or> name_char c) \<and> list_all name_char rest"
    if "is_valid_did_folder_name name"
    using that unfolding is_valid_did_folder_name_iff folder_name_grammar_def
    by (auto simp: one_or_more_name_chars_def split: list.splits)
  have "\<not> is_valid_did_folder_name name" if "CHR ''/'' \<in> set name"
  proof
    assume "is_valid_did_folder_name name"
    from shape [OF this] that show False
      using slash_not_name_char by (auto simp: list_all_iff split: list.splits)
  qed
  then show ?thesis using shape is_valid_did_folder_name_iff by blast
qed

theorem is_valid_did_folder_name_grammar_witness:
  "is_valid_did_folder_name ''.well-known''
   \<and> is_valid_did_folder_name ''my_did-2''
   \<and> CHR ''/'' \<in> set ''a/b'' \<and> \<not> is_valid_did_folder_name ''a/b''
   \<and> \<not> is_valid_did_folder_name ''''
   \<and> \<not> is_valid_did_folder_name ''.''
   \<and> \<not> is_valid_did_folder_name ''a.b''"
proof -
  have "folder_name_grammar ''.well-known''" "folder_name_grammar ''my_did-2''"
    "\<not> folder_name_grammar ''''" "\<not> folder_name_grammar ''.''"
    "\<not> folder_name_grammar ''a.b''"
    by (simp_all add: folder_name_grammar_def one_or_more_name_chars_def name_char_def)
  moreover have "CHR ''/'' \<in> set ''a/b''" by simp
  ultimately show ?thesis
    using is_valid_did_folder_name_grammar [of "''.well-known''"]
      is_valid_did_folder_name_grammar [of "''my_did-2''"]
      is_valid_did_folder_name_grammar [of "''a/b''"]
      is_valid_did_folder_name_grammar [of "''''"]
      is_valid_did_folder_name_grammar [of "''.''"]
      is_valid_did_folder_name_grammar [of "''a.b''"]
    by blast
qed

section \<open>Key acquisition: writes, failures and error reports\<close>

lemma load_existing:
  assumes "console_and_stat_work key_path w"
    and "files w key_path = Some content" and "read_error w key_path = None"
  shows "load_or_generate_private_key lib key_path w =
    (case load_pem_private_key lib content of
       Inl msg \<Rightarrow>
         (Inl (SystemExit 1),
          w\<lparr>trace := trace w @
             [Exists key_path, Print (''Using existing private key at `'' @ key_path @ ''`''),
              ReadBytes key_path,
              PrintErr (''Error: Could not load private key: '' @ msg)]\<rparr>)
     | Inr (EllipticCurvePrivateKey private_key) \<Rightarrow>
         (Inr private_key,
          w\<lparr>trace := trace w @
             [Exists key_path, Print (''Using existing private key at `'' @ key_path @ ''`''),
              ReadBytes key_path]\<rparr>)
     | Inr (OtherPrivateKey t) \<Rightarrow>
         (Inl (SystemExit 1),
          w\<lparr>trace := trace w @
             [Exists key_path, Print (''Using existing private key at `'' @ key_path @ ''`''),
              ReadBytes key_path,
              PrintErr ''Error: Only elliptic curve keys are supported'']\<rparr>))"
  using assms
  by (simp add: load_or_generate_private_key_def console_and_stat_work_def path_exists_def
      print_stdout_def print_stderr_def read_bytes_def log_def try_except_Exception_def die_def
      split: sum.splits private_key.splits)

lemma load_unreadable:
  assumes "console_and_stat_work key_path w"
    and "files w key_path = Some content" and "read_error w key_path = Some msg"
  shows "load_or_generate_private_key lib key_path w =
         (Inl (SystemExit 1),
          w\<lparr>trace := trace w @
             [Exists key_path, Print (''Using existing private key at `'' @ key_path @ ''`''),
              ReadBytes key_path,
              PrintErr (''Error: Could not load private key: '' @ msg)]\<rparr>)"
  using assms
  by (simp add: load_or_generate_private_key_def console_and_stat_work_def path_exists_def
      print_stdout_def print_stderr_def read_bytes_def log_def try_except_Exception_def die_def)

lemma generate_new:
  assumes "console_and_stat_work key_path w"
    and "files w key_path = None" and "generate_error lib DEFAULT_EC_CURVE = None"
  shows "load_or_generate_private_key lib key_path w =
    (case write_error w key_path of
       Some msg \<Rightarrow>
         (Inl (SystemExit 1),
          w\<lparr>trace := trace w @
             [Exists key_path, Print (''Generating new private key at `'' @ key_path @ ''`''),
              WriteBytes key_path (private_bytes_pem (generate_private_key lib DEFAULT_EC_CURVE)),
              PrintErr (''Error: Could not write private key: '' @ msg)]\<rparr>)
     | None \<Rightarrow>
         (Inr (generate_private_key lib DEFAULT_EC_CURVE),
          w\<lparr>trace := trace w @
             [Exists key_path, Print (''Generating new private key at `'' @ key_path @ ''`''),
              WriteBytes key_path (private_bytes_pem (generate_private_key lib DEFAULT_EC_CURVE))],
            files := (files w)(key_path \<mapsto>
              private_bytes_pem (generate_private_key lib DEFAULT_EC_CURVE))\<rparr>))"
  using assms
  by (simp add: load_or_generate_private_key_def console_and_stat_work_def path_exists_def
      print_stdout_def print_stderr_def write_bytes_def log_def try_except_Exception_def die_def
      Let_def split: option.splits)

lemma is_write_simps:
  "is_write (WriteBytes p c)" "\<not> is_write (Exists p)" "\<not> is_write (ReadBytes p)"
  "\<not> is_write (Print m)" "\<not> is_write (PrintErr m)"
  by (simp_all add: is_write_def)

lemma is_error_report_simps:
  "is_error_report (PrintErr m)" "\<not> is_error_report (Exists p)"
  "\<not> is_error_report (ReadBytes p)" "\<not> is_error_report (Print m)"
  "\<not> is_error_report (WriteBytes p c)"
  by (simp_all add: is_error_report_def)

lemma die_reported:
  "stderr_error w = None \<Longrightarrow>
   die m w = (Inl (SystemExit 1), w\<lparr>trace := trace w @ [PrintErr (''Error: '' @ m)]\<rparr>)"
  by (simp add: die_def print_stderr_def log_def)

lemma die_broken: "stderr_error w = Some e \<Longrightarrow> die m w = (Inl (OSError e), w)"
  by (simp add: die_def print_stderr_def)

text \<open>Every way in which a call of key acquisition can end.\<close>

lemma key_acquisition_outcomes:
  assumes "load_or_generate_private_key lib key_path w = (result, w')"
  shows
   "(\<exists>msg. (exists_error w key_path = Some msg
             \<or> exists_error w key_path = None \<and> stdout_error w = Some msg)
        \<and> result = Inl (OSError msg)
        \<and> w' = w\<lparr>trace := trace w @ [Exists key_path]\<rparr>)
    \<or> (\<exists>content message.
          exists_error w key_path = None \<and> stdout_error w = None \<and> stderr_error w = None
        \<and> files w key_path = Some content
        \<and> ((\<exists>msg. read_error w key_path = Some msg
                \<and> message = ''Could not load private key: '' @ msg)
           \<or> (\<exists>msg. read_error w key_path = None
                \<and> load_pem_private_key lib content = Inl msg
                \<and> message = ''Could not load private key: '' @ msg)
           \<or> (\<exists>t. read_error w key_path = None
                \<and> load_pem_private_key lib content = Inr (OtherPrivateKey t)
                \<and> message = ''Only elliptic curve keys are supported''))
        \<and> result = Inl (SystemExit 1)
        \<and> w' = w\<lparr>trace := trace w @
              [Exists key_path, Print (''Using existing private key at `'' @ key_path @ ''`''),
               ReadBytes key_path, PrintErr (''Error: '' @ message)]\<rparr>)
    \<or> (\<exists>content e.
          exists_error w key_path = None \<and> stdout_error w = None \<and> stderr_error w = Some e
        \<and> files w key_path = Some content
        \<and> (read_error w key_path \<noteq> None
           \<or> (\<forall>k. load_pem_private_key lib content \<noteq> Inr (EllipticCurvePrivateKey k)))
        \<and> result = Inl (OSError e)
        \<and> w' = w\<lparr>trace := trace w @
              [Exists key_path, Print (''Using existing private key at `'' @ key_path @ ''`''),
               ReadBytes key_path]\<rparr>)
    \<or> (\<exists>content k.
          exists_error w key_path = None \<and> stdout_error w = None
        \<and> files w key_path = Some content \<and> read_error w key_path = None
        \<and> load_pem_private_key lib content = Inr (EllipticCurvePrivateKey k)
        \<and> result = Inr k
        \<and> w' = w\<lparr>trace := trace w @
              [Exists key_path, Print (''Using existing private key at `'' @ key_path @ ''`''),
               ReadBytes key_path]\<rparr>)
    \<or> (\<exists>msg.
          exists_error w key_path = None \<and> stdout_error w = None
        \<and> files w key_path = None \<and> generate_error lib DEFAULT_EC_CURVE = Some msg
        \<and> result = Inl (UnsupportedAlgorithm msg)
        \<and> w' = w\<lparr>trace := trace w @
              [Exists key_path,
               Print (''Generating new private key at `'' @ key_path @ ''`'')]\<rparr>)
    \<or> (\<exists>msg.
          exists_error w key_path = None \<and> stdout_error w = None \<and> stderr_error w = None
        \<and> files w key_path = None \<and> generate_error lib DEFAULT_EC_CURVE = None
        \<and> write_error w key_path = Some msg
        \<and> result = Inl (SystemExit 1)
        \<and> w' = w\<lparr>trace := trace w @
              [Exists key_path, Print (''Generating new private key at `'' @ key_path @ ''`''),
               WriteBytes key_path
                 (private_bytes_pem (generate_private_key lib DEFAULT_EC_CURVE)),
               PrintErr (''Error: Could not write private key: '' @ msg)]\<rparr>)
    \<or> (\<exists>msg e.
          exists_error w key_path = None \<and> stdout_error w = None \<and> stderr_error w = Some e
        \<and> files w key_path = None \<and> generate_error lib DEFAULT_EC_CURVE = None
        \<and> write_error w key_path = Some msg
        \<and> result = Inl (OSError e)
        \<and> w' = w\<lparr>trace := trace w @
              [Exists key_path, Print (''Generating new private key at `'' @ key_path @ ''`''),
               WriteBytes key_path
                 (private_bytes_pem (generate_private_key lib DEFAULT_EC_CURVE))]\<rparr>)
    \<or> (exists_error w key_path = None \<and> stdout_error w = None
        \<and> files w key_path = None \<and> generate_error lib DEFAULT_EC_CURVE = None
        \<and> write_error w key_path = None
        \<and> result = Inr (generate_private_key lib DEFAULT_EC_CURVE)
        \<and> w' = w\<lparr>trace := trace w @
              [Exists key_path, Print (''Generating new private key at `'' @ key_path @ ''`''),
               WriteBytes key_path
                 (private_bytes_pem (generate_private_key lib DEFAULT_EC_CURVE))],
             files := (files w)(key_path \<mapsto>
               private_bytes_pem (generate_private_key lib DEFAULT_EC_CURVE))\<rparr>)"
proof (cases "exists_error w key_path")
  case (Some msg)
  then show ?thesis
    using assms by (simp add: load_or_generate_private_key_def path_exists_def log_def)
next
  case no_stat_error: None
  show ?thesis
  proof (cases "stdout_error w")
    case (Some msg)
    then show ?thesis
      using assms no_stat_error
      by (simp add: load_or_generate_private_key_def path_exists_def print_stdout_def log_def
          split: bool.splits)
  next
    case stdout_ok: None
    show ?thesis
    proof (cases "files w key_path")
      case no_file: None
      show ?thesis
      proof (cases "generate_error lib DEFAULT_EC_CURVE")
        case (Some msg)
        then show ?thesis
          using assms no_stat_error stdout_ok no_file
          by (simp add: load_or_generate_private_key_def path_exists_def print_stdout_def
              log_def)
      next
        case generated: None
        show ?thesis
        proof (cases "write_error w key_path")
          case None
          then show ?thesis
            using assms no_stat_error stdout_ok no_file generated
            by (simp add: load_or_generate_private_key_def path_exists_def print_stdout_def
                write_bytes_def try_except_Exception_def log_def Let_def)
        next
          case write_refused: (Some msg)
          show ?thesis
          proof (cases "stderr_error w")
            case None
            then show ?thesis
              using assms no_stat_error stdout_ok no_file generated write_refused
              by (simp add: load_or_generate_private_key_def path_exists_def print_stdout_def
                  write_bytes_def try_except_Exception_def die_def print_stderr_def log_def
                  Let_def)
          next
            case (Some e)
            then show ?thesis
              using assms no_stat_error stdout_ok no_file generated write_refused
              by (simp add: load_or_generate_private_key_def path_exists_def print_stdout_def
                  write_bytes_def try_except_Exception_def die_def print_stderr_def log_def
                  Let_def)
          qed
        qed
      qed
    next
      case has_file: (Some content)
      show ?thesis
      proof (cases "stderr_error w")
        case None
        then show ?thesis
          using assms no_stat_error stdout_ok has_file
          by (cases "read_error w key_path"; cases "load_pem_private_key lib content")
             (auto simp: load_or_generate_private_key_def path_exists_def print_stdout_def
               read_bytes_def try_except_Exception_def die_def print_stderr_def log_def
               split: private_key.splits)
      next
        case (Some e)
        then show ?thesis
          using assms no_stat_error stdout_ok has_file
          by (cases "read_error w key_path"; cases "load_pem_private_key lib content")
             (auto simp: load_or_generate_private_key_def path_exists_def print_stdout_def
               read_bytes_def try_except_Exception_def die_def print_stderr_def log_def
               split: private_key.splits)
      qed
    qed
  qed
qed

text \<open>
  Claim C5. Key acquisition writes at most once, and only when it generates: every write
  among the events of a call is the write of the new key to the key path, and it
  happens only when no file exists there. When a file exists at the key path, the call
  writes nothing and leaves every file as it is. No other path is ever changed.
\<close>

theorem key_file_written_at_most_once:
  assumes "load_or_generate_private_key lib key_path w = (result, w')"
  shows "\<exists>evs. trace w' = trace w @ evs
    \<and> length (filter is_write evs) \<le> 1
    \<and> (\<forall>ev \<in> set evs. is_write ev \<longrightarrow>
          files w key_path = None
          \<and> ev = WriteBytes key_path
                 (private_bytes_pem (generate_private_key lib DEFAULT_EC_CURVE)))
    \<and> (files w key_path \<noteq> None \<longrightarrow> filter is_write evs = [] \<and> files w' = files w)
    \<and> (\<forall>p. p \<noteq> key_path \<longrightarrow> files w' p = files w p)"
  using key_acquisition_outcomes [OF assms]
  by (elim disjE exE conjE) (auto simp: is_write_simps)

lemma example_worlds_work:
  "console_and_stat_work p (world_with fs)"
  "console_and_stat_work p example_unreadable_world"
  by (simp_all add: console_and_stat_work_def world_with_def example_unreadable_world_def)

lemma example_first_run_eq:
  "example_first_run =
     (Inr example_private_key,
      (world_with Map.empty)
        \<lparr>trace :=
           [Exists ''private_key.pem'',
            Print ''Generating new private key at `private_key.pem`'',
            WriteBytes ''private_key.pem'' example_pem],
         files := [''private_key.pem'' \<mapsto> example_pem]\<rparr>)"
proof -
  have f: "files (world_with Map.empty) ''private_key.pem'' = None"
    and e: "write_error (world_with Map.empty) ''private_key.pem'' = None"
    and t: "trace (world_with Map.empty) = []"
    and fs: "files (world_with Map.empty) = Map.empty"
    by (simp_all add: world_with_def)
  have g: "generate_error example_crypto DEFAULT_EC_CURVE = None"
    and k: "generate_private_key example_crypto DEFAULT_EC_CURVE = example_private_key"
    by (simp_all add: example_crypto_def)
  have p: "private_bytes_pem example_private_key = example_pem"
    by (simp add: example_private_key_def)
  show ?thesis
    unfolding example_first_run_def generate_new [OF example_worlds_work(1) f g] e k p t fs
    by simp
qed

lemma example_first_run_result:
  "fst example_first_run = Inr example_private_key"
  "trace (snd example_first_run) =
     [Exists ''private_key.pem'', Print ''Generating new private key at `private_key.pem`'',
      WriteBytes ''private_key.pem'' example_pem]"
  "files (snd example_first_run) ''private_key.pem'' = Some example_pem"
  "read_error (snd example_first_run) ''private_key.pem'' = None"
  "console_and_stat_work ''private_key.pem'' (snd example_first_run)"
  unfolding example_first_run_eq
  by (simp_all add: world_with_def console_and_stat_work_def)

lemma example_second_run_result:
  "fst example_second_run = Inr example_private_key"
  "trace (snd example_second_run) =
     [Exists ''private_key.pem'', Print ''Generating new private key at `private_key.pem`'',
      WriteBytes ''private_key.pem'' example_pem,
      Exists ''private_key.pem'', Print ''Using existing private key at `private_key.pem`'',
      ReadBytes ''private_key.pem'']"
  by (simp_all add: example_second_run_def
      load_existing [OF example_first_run_result(5) example_first_run_result(3)
        example_first_run_result(4)]
      example_first_run_result(2) example_crypto_def)

theorem key_file_written_at_most_once_witness:
  "fst example_first_run = Inr example_private_key
   \<and> files (snd example_first_run) ''private_key.pem'' = Some example_pem
   \<and> fst example_second_run = Inr example_private_key
   \<and> files (snd example_second_run) = files (snd example_first_run)
   \<and> filter is_write (trace (snd example_second_run)) =
       [WriteBytes ''private_key.pem'' example_pem]"
proof -
  have run: "load_or_generate_private_key example_crypto ''private_key.pem''
      (snd example_first_run) = (fst example_second_run, snd example_second_run)"
    by (simp add: example_second_run_def)
  have "files (snd example_first_run) ''private_key.pem'' \<noteq> None"
    by (simp add: example_first_run_result(3))
  then have "files (snd example_second_run) = files (snd example_first_run)"
    using key_file_written_at_most_once [OF run] by blast
  then show ?thesis
    by (simp add: example_first_run_result(1-4) example_second_run_result is_write_simps)
qed

text \<open>
  Claim C6, as the script has it. Let \<^verbatim>\<open>exists()\<close> answer that a file is at the key path
  and let the console accept output. Key acquisition then leaves all files as they are.
  If the file can be read: it fails with the message \<^verbatim>\<open>Could not load private key\<close>
  exactly when the parser rejects the bytes; it fails with the message
  \<^verbatim>\<open>Only elliptic curve keys are supported\<close>, and not with the former, exactly when the
  bytes parse to a key that is not elliptic-curve; it returns the key exactly when the
  bytes parse to an elliptic-curve key. If the file cannot be read, it fails with
  \<^verbatim>\<open>Could not load private key\<close> whatever the bytes are. In every failure the error
  report is the last event: nothing is read or written after it.
\<close>

theorem load_existing_key_outcomes:
  assumes "console_and_stat_work key_path w"
    and "files w key_path = Some content"
    and "load_or_generate_private_key lib key_path w = (result, w')"
  shows "files w' = files w
    \<and> (\<forall>msg. read_error w key_path = Some msg \<longrightarrow>
          result = Inl (SystemExit 1)
          \<and> trace w' = trace w @
                [Exists key_path,
                 Print (''Using existing private key at `'' @ key_path @ ''`''),
                 ReadBytes key_path,
                 PrintErr (''Error: Could not load private key: '' @ msg)])
    \<and> (read_error w key_path = None \<longrightarrow>
         ((\<exists>msg. load_pem_private_key lib content = Inl msg) \<longleftrightarrow>
          (\<exists>msg. result = Inl (SystemExit 1)
            \<and> trace w' = trace w @
                [Exists key_path,
                 Print (''Using existing private key at `'' @ key_path @ ''`''),
                 ReadBytes key_path,
                 PrintErr (''Error: Could not load private key: '' @ msg)]))
         \<and> ((\<exists>t. load_pem_private_key lib content = Inr (OtherPrivateKey t)) \<longleftrightarrow>
            (result = Inl (SystemExit 1)
             \<and> trace w' = trace w @
                [Exists key_path,
                 Print (''Using existing private key at `'' @ key_path @ ''`''),
                 ReadBytes key_path,
                 PrintErr ''Error: Only elliptic curve keys are supported'']))
         \<and> (\<forall>private_key.
              load_pem_private_key lib content = Inr (EllipticCurvePrivateKey private_key)
              \<longleftrightarrow>
              (result = Inr private_key
               \<and> trace w' = trace w @
                  [Exists key_path,
                   Print (''Using existing private key at `'' @ key_path @ ''`''),
                   ReadBytes key_path])))"
proof (cases "read_error w key_path")
  case None
  show ?thesis
    using assms(3) unfolding load_existing [OF assms(1,2) None]
    by (auto simp: None split: sum.splits private_key.splits)
next
  case (Some msg)
  show ?thesis
    using assms(3) unfolding load_unreadable [OF assms(1,2) Some]
    by (auto simp: Some)
qed

theorem load_existing_key_outcomes_witness:
  "console_and_stat_work ''private_key.pem''
     (world_with [''private_key.pem'' \<mapsto> example_rsa_pem])
   \<and> files (world_with [''private_key.pem'' \<mapsto> example_rsa_pem]) ''private_key.pem''
     = Some example_rsa_pem
   \<and> read_error (world_with [''private_key.pem'' \<mapsto> example_rsa_pem]) ''private_key.pem''
     = None
   \<and> load_pem_private_key example_crypto example_rsa_pem = Inr (OtherPrivateKey ''RSAPrivateKey'')
   \<and> fst example_rsa_run = Inl (SystemExit 1)
   \<and> trace (snd example_rsa_run) =
       [Exists ''private_key.pem'', Print ''Using existing private key at `private_key.pem`'',
        ReadBytes ''private_key.pem'',
        PrintErr ''Error: Only elliptic curve keys are supported'']
   \<and> files (snd example_rsa_run) ''private_key.pem'' = Some example_rsa_pem"
proof -
  let ?w = "world_with [''private_key.pem'' \<mapsto> example_rsa_pem]"
  have c: "console_and_stat_work ''private_key.pem'' ?w" by (rule example_worlds_work(1))
  have f: "files ?w ''private_key.pem'' = Some example_rsa_pem"
    and r: "read_error ?w ''private_key.pem'' = None"
    and t: "trace ?w = []"
    by (simp_all add: world_with_def)
  have p: "load_pem_private_key example_crypto example_rsa_pem
      = Inr (OtherPrivateKey ''RSAPrivateKey'')"
    by (simp add: example_crypto_def example_rsa_pem_def example_pem_def)
  have run: "load_or_generate_private_key example_crypto ''private_key.pem'' ?w
      = (fst example_rsa_run, snd example_rsa_run)"
    by (simp add: example_rsa_run_def)
  have "files (snd example_rsa_run) = files ?w
    \<and> fst example_rsa_run = Inl (SystemExit 1)
    \<and> trace (snd example_rsa_run) = trace ?w @
        [Exists ''private_key.pem'',
         Print (''Using existing private key at `'' @ ''private_key.pem'' @ ''`''),
         ReadBytes ''private_key.pem'',
         PrintErr ''Error: Only elliptic curve keys are supported'']"
    using load_existing_key_outcomes [OF c f run] r p by blast
  then show ?thesis using c f r p t by simp
qed

lemma example_unreadable_run_result:
  "files example_unreadable_world ''private_key.pem'' = Some example_pem"
  "load_pem_private_key example_crypto example_pem
     = Inr (EllipticCurvePrivateKey example_private_key)"
  "fst example_unreadable_run = Inl (SystemExit 1)"
  "trace (snd example_unreadable_run) =
     [Exists ''private_key.pem'', Print ''Using existing private key at `private_key.pem`'',
      ReadBytes ''private_key.pem'',
      PrintErr ''Error: Could not load private key: Permission denied'']"
proof -
  have f: "files example_unreadable_world ''private_key.pem'' = Some example_pem"
    and r: "read_error example_unreadable_world ''private_key.pem'' = Some ''Permission denied''"
    and t: "trace example_unreadable_world = []"
    by (simp_all add: example_unreadable_world_def world_with_def)
  show "files example_unreadable_world ''private_key.pem'' = Some example_pem" by (rule f)
  show "load_pem_private_key example_crypto example_pem
     = Inr (EllipticCurvePrivateKey example_private_key)"
    by (simp add: example_crypto_def)
  show "fst example_unreadable_run = Inl (SystemExit 1)"
    unfolding example_unreadable_run_def load_unreadable [OF example_worlds_work(2) f r]
    by simp
  show "trace (snd example_unreadable_run) =
     [Exists ''private_key.pem'', Print ''Using existing private key at `private_key.pem`'',
      ReadBytes ''private_key.pem'',
      PrintErr ''Error: Could not load private key: Permission denied'']"
    unfolding example_unreadable_run_def load_unreadable [OF example_worlds_work(2) f r]
    by (simp add: t)
qed

text \<open>
  The claim as stated fails: a key file whose bytes parse to an elliptic-curve key, but
  which may not be read, ends in the load error and no key is returned.
\<close>

theorem unreadable_key_file_counterexample:
  "files example_unreadable_world ''private_key.pem'' = Some example_pem
   \<and> load_pem_private_key example_crypto example_pem
       = Inr (EllipticCurvePrivateKey example_private_key)
   \<and> fst example_unreadable_run = Inl (SystemExit 1)
   \<and> fst example_unreadable_run \<noteq> Inr example_private_key
   \<and> trace (snd example_unreadable_run) =
     [Exists ''private_key.pem'', Print ''Using existing private key at `private_key.pem`'',
      ReadBytes ''private_key.pem'',
      PrintErr ''Error: Could not load private key: Permission denied'']"
  by (simp add: example_unreadable_run_result)

lemma convert_key_to_jwk_no_exit: "convert_key_to_jwk pk options \<noteq> Inl (SystemExit code)"
  by (auto simp: convert_key_to_jwk_def Let_def to_bytes_def dict_getitem_def decode_ascii_def
      split: sum.splits if_splits option.splits)

lemma create_did_document_no_exit: "create_did_document sha256 did pk \<noteq> Inl (SystemExit code)"
  using convert_key_to_jwk_no_exit
  by (auto simp: create_did_document_def Let_def dict_getitem_def
      split: sum.splits option.splits)

text \<open>
  Claim C7, as the script has it. JWK encoding and document building never end in
  \<^verbatim>\<open>SystemExit\<close> (they print nothing; a failure is an exception handed to the caller), and
  fingerprinting cannot fail. Key acquisition does call \<^verbatim>\<open>die\<close>. Every \<^verbatim>\<open>SystemExit\<close> of
  key acquisition has the status 1 and comes right after the one diagnostic
  \<^verbatim>\<open>Error: ...\<close> printed on standard error, and a diagnostic is printed in no other
  case. Where \<^verbatim>\<open>exists()\<close> answers and the console accepts output, a key file that
  cannot be read or does not parse to an elliptic-curve key, and a refused write of a
  new key, each end this way.
\<close>

theorem die_only_in_key_acquisition:
  "(\<forall>code. convert_key_to_jwk pk options \<noteq> Inl (SystemExit code))
   \<and> (\<forall>code. create_did_document sha256 did pk \<noteq> Inl (SystemExit code))
   \<and> (load_or_generate_private_key lib key_path w = (result, w') \<longrightarrow>
        (\<exists>evs. trace w' = trace w @ evs
           \<and> (list_ex is_error_report evs \<longleftrightarrow> (\<exists>code. result = Inl (SystemExit code)))
           \<and> (\<forall>code. result = Inl (SystemExit code) \<longrightarrow>
                 code = 1 \<and> evs \<noteq> []
                 \<and> (\<exists>message. last evs = PrintErr (''Error: '' @ message))
                 \<and> \<not> list_ex is_error_report (butlast evs)))
        \<and> (console_and_stat_work key_path w \<longrightarrow>
             (\<forall>content.
                files w key_path = Some content
                \<and> (read_error w key_path \<noteq> None
                   \<or> (\<forall>k. load_pem_private_key lib content
                             \<noteq> Inr (EllipticCurvePrivateKey k)))
                \<longrightarrow> result = Inl (SystemExit 1))
             \<and> (files w key_path = None \<and> generate_error lib DEFAULT_EC_CURVE = None
                \<and> write_error w key_path \<noteq> None
                \<longrightarrow> result = Inl (SystemExit 1))))"
proof -
  have acquisition:
    "(\<exists>evs. trace w' = trace w @ evs
           \<and> (list_ex is_error_report evs \<longleftrightarrow> (\<exists>code. result = Inl (SystemExit code)))
           \<and> (\<forall>code. result = Inl (SystemExit code) \<longrightarrow>
                 code = 1 \<and> evs \<noteq> []
                 \<and> (\<exists>message. last evs = PrintErr (''Error: '' @ message))
                 \<and> \<not> list_ex is_error_report (butlast evs)))
        \<and> (console_and_stat_work key_path w \<longrightarrow>
             (\<forall>content.
                files w key_path = Some content
                \<and> (read_error w key_path \<noteq> None
                   \<or> (\<forall>k. load_pem_private_key lib content
                             \<noteq> Inr (EllipticCurvePrivateKey k)))
                \<longrightarrow> result = Inl (SystemExit 1))
             \<and> (files w key_path = None \<and> generate_error lib DEFAULT_EC_CURVE = None
                \<and> write_error w key_path \<noteq> None
                \<longrightarrow> result = Inl (SystemExit 1)))"
    if run: "load_or_generate_private_key lib key_path w = (result, w')"
    using key_acquisition_outcomes [OF run]
    by (elim disjE exE conjE)
       (auto simp: is_error_report_simps console_and_stat_work_def)
  show ?thesis
    using convert_key_to_jwk_no_exit create_did_document_no_exit acquisition by blast
qed

lemma example_garbage_run_result:
  "fst example_garbage_run = Inl (SystemExit 1)"
  "trace (snd example_garbage_run) =
     [Exists ''private_key.pem'', Print ''Using existing private key at `private_key.pem`'',
      ReadBytes ''private_key.pem'',
      PrintErr ''Error: Could not load private key: Could not deserialize key data'']"
proof -
  let ?w = "world_with [''private_key.pem'' \<mapsto> []]"
  have f: "files ?w ''private_key.pem'' = Some []"
    and r: "read_error ?w ''private_key.pem'' = None"
    by (simp_all add: world_with_def)
  have p: "load_pem_private_key example_crypto [] = Inl ''Could not deserialize key data''"
    by (simp add: example_crypto_def example_rsa_pem_def example_pem_def)
  show "fst example_garbage_run = Inl (SystemExit 1)"
    by (simp add: example_garbage_run_def load_existing [OF example_worlds_work(1) f r] p)
  show "trace (snd example_garbage_run) =
     [Exists ''private_key.pem'', Print ''Using existing private key at `private_key.pem`'',
      ReadBytes ''private_key.pem'',
      PrintErr ''Error: Could not load private key: Could not deserialize key data'']"
    unfolding example_garbage_run_def load_existing [OF example_worlds_work(1) f r] p
    by (simp add: world_with_def)
qed

lemma example_long_name_run_result:
  "example_long_name_run =
     (Inl (OSError ''File name too long''),
      (world_with Map.empty)
        \<lparr>exists_error := [''private_key.pem'' \<mapsto> ''File name too long''],
         trace := [Exists ''private_key.pem'']\<rparr>)"
  by (simp add: example_long_name_run_def load_or_generate_private_key_def path_exists_def
      log_def world_with_def)

text \<open>
  The claim as stated fails: on a key file that does not parse, key acquisition itself
  prints the diagnostic and exits.
\<close>

theorem key_acquisition_calls_die_counterexample:
  "fst example_garbage_run = Inl (SystemExit 1)
   \<and> trace (snd example_garbage_run) =
     [Exists ''private_key.pem'', Print ''Using existing private key at `private_key.pem`'',
      ReadBytes ''private_key.pem'',
      PrintErr ''Error: Could not load private key: Could not deserialize key data'']
   \<and> is_error_report (last (trace (snd example_garbage_run)))"
  by (simp add: example_garbage_run_result is_error_report_simps)

theorem die_only_in_key_acquisition_witness:
  "console_and_stat_work ''private_key.pem''
     (world_with [''private_key.pem'' \<mapsto> example_rsa_pem])
   \<and> files (world_with [''private_key.pem'' \<mapsto> example_rsa_pem]) ''private_key.pem''
       = Some example_rsa_pem
   \<and> load_pem_private_key example_crypto example_rsa_pem
       = Inr (OtherPrivateKey ''RSAPrivateKey'')
   \<and> fst example_rsa_run = Inl (SystemExit 1)
   \<and> (\<exists>evs message.
        trace (snd example_rsa_run)
          = trace (world_with [''private_key.pem'' \<mapsto> example_rsa_pem]) @ evs
        \<and> last evs = PrintErr (''Error: '' @ message))
   \<and> convert_key_to_jwk example_p224_key [] = Inl (KeyError 224)
   \<and> fst example_long_name_run = Inl (OSError ''File name too long'')
   \<and> trace (snd example_long_name_run) = [Exists ''private_key.pem'']"
proof -
  let ?w = "world_with [''private_key.pem'' \<mapsto> example_rsa_pem]"
  have c: "console_and_stat_work ''private_key.pem'' ?w" by (rule example_worlds_work(1))
  have f: "files ?w ''private_key.pem'' = Some example_rsa_pem" by (simp add: world_with_def)
  have p: "load_pem_private_key example_crypto example_rsa_pem
      = Inr (OtherPrivateKey ''RSAPrivateKey'')"
    by (simp add: example_crypto_def example_rsa_pem_def example_pem_def)
  have run: "load_or_generate_private_key example_crypto ''private_key.pem'' ?w
      = (fst example_rsa_run, snd example_rsa_run)"
    by (simp add: example_rsa_run_def)
  note claim = die_only_in_key_acquisition [where lib = example_crypto
        and key_path = "''private_key.pem''" and w = ?w
        and result = "fst example_rsa_run" and w' = "snd example_rsa_run"]
  have failed: "fst example_rsa_run = Inl (SystemExit 1)"
    using claim run c f p by auto
  have "\<exists>evs message. trace (snd example_rsa_run) = trace ?w @ evs
        \<and> last evs = PrintErr (''Error: '' @ message)"
    using claim run failed by metis
  then show ?thesis
    using c f p failed example_p224_unregistered
    by (simp add: example_long_name_run_result)
qed

end
